theory Spec2Isabelle
  imports Main "HOL-Library.Word"
begin

section \<open>Python values used by the webhook and idempotency code\<close>

text \<open>
  A Python \<open>str\<close> is a sequence of Unicode code points and \<open>len\<close> counts code points;
  a \<open>bytes\<close> object is a sequence of octets. The two are kept apart, because the
  implementations differ exactly in where they cross from one to the other.
\<close>

type_synonym codepoint = nat
type_synonym str = "codepoint list"
type_synonym byte = "8 word"
type_synonym bytes = "byte list"

text \<open>An ASCII literal of the source, as a \<open>str\<close> and as \<open>bytes\<close>.\<close>

definition ustr :: "string \<Rightarrow> str" where
  "ustr s = map of_char s"

definition ubytes :: "string \<Rightarrow> bytes" where
  "ubytes s = map of_char s"

text \<open>
  The exceptions the modelled functions can leave with. The two SDK exception classes carry
  a message; the message is what tells one failure from another, so it is kept (one
  constructor per message text of the source), together with the values the source
  formats into it. \<open>IdempotencyKeyTooLong\<close> is the \<open>ValueError\<close> that
  \<open>make_idempotency_key\<close> raises with its too-long message; the plain \<open>ValueError\<close> is
  the one of unpacking a segment without \<open>=\<close>.
\<close>

datatype message =
    MsgMissingHeader
  | MsgInvalidHeaderFormat
  | MsgMissingTimestampOrSignature
  | MsgMissingRequiredFields "str set"
  | MsgInvalidTimestampFormat
  | MsgTimestampOutsideTolerance int int
  | MsgUnknownKeyID str
  | MsgSecretNotFound str
  | MsgSignatureMismatch

datatype exn =
    WebhookVerificationError message
  | SignatureError message
  | IdempotencyKeyTooLong
  | ValueError
  | TypeError
  | UnicodeDecodeError
  | UnicodeEncodeError

subsection \<open>Decimal and hexadecimal text\<close>

text \<open>\<open>str(n)\<close> and \<open>f"{n}"\<close> for an \<open>int\<close>: decimal digits, a minus sign when negative.\<close>

fun dec_digits :: "nat \<Rightarrow> str" where
  "dec_digits n = (if n < 10 then [48 + n] else dec_digits (n div 10) @ [48 + n mod 10])"

declare dec_digits.simps [simp del]

definition py_str :: "int \<Rightarrow> str" where
  "py_str i = (if i < 0 then 45 # dec_digits (nat (- i)) else dec_digits (nat i))"

text \<open>\<open>bytes.hex()\<close> / \<open>hexdigest()\<close>: two lowercase hexadecimal digits per octet.\<close>

definition hex_digit :: "nat \<Rightarrow> codepoint" where
  "hex_digit d = (if d < 10 then 48 + d else 87 + d)"

definition hexlify :: "bytes \<Rightarrow> str" where
  "hexlify bs = concat (map (\<lambda>b. [hex_digit (unat b div 16), hex_digit (unat b mod 16)]) bs)"

subsection \<open>Splitting and stripping\<close>

text \<open>\<open>s.split(sep)\<close> for a one-character separator: every occurrence cuts, so the
  result has one more element than there are separators and is never empty.\<close>

function py_split :: "codepoint \<Rightarrow> str \<Rightarrow> str list" where
  "py_split sep s =
     (case dropWhile (\<lambda>c. c \<noteq> sep) s of
        [] \<Rightarrow> [s]
      | _ # r \<Rightarrow> takeWhile (\<lambda>c. c \<noteq> sep) s # py_split sep r)"
  by pat_completeness auto
termination
proof (relation "measure (\<lambda>(sep, s). length s)")
  show "wf (measure (\<lambda>(sep, s). length s))" by simp
next
  fix sep c :: codepoint and s r :: str
  assume "dropWhile (\<lambda>c. c \<noteq> sep) s = c # r"
  then have "length (c # r) \<le> length s"
    by (metis length_dropWhile_le)
  then show "((sep, r), (sep, s)) \<in> measure (\<lambda>(sep, s). length s)" by simp
qed

declare py_split.simps [simp del]

text \<open>\<open>s.split(sep, 1)\<close>: cut at the first separator only; one element when there is none.\<close>

definition split1 :: "codepoint \<Rightarrow> str \<Rightarrow> str list" where
  "split1 sep s =
     (case dropWhile (\<lambda>c. c \<noteq> sep) s of
        [] \<Rightarrow> [s]
      | _ # r \<Rightarrow> [takeWhile (\<lambda>c. c \<noteq> sep) s, r])"

text \<open>\<open>str.isspace\<close> for one code point (the whitespace table of CPython's Unicode
  database) and \<open>str.strip()\<close>.\<close>

definition py_isspace :: "codepoint \<Rightarrow> bool" where
  "py_isspace c =
     ((9 \<le> c \<and> c \<le> 13) \<or> (28 \<le> c \<and> c \<le> 32) \<or> c = 0x85 \<or> c = 0xA0 \<or> c = 0x1680
      \<or> (0x2000 \<le> c \<and> c \<le> 0x200A) \<or> c = 0x2028 \<or> c = 0x2029 \<or> c = 0x202F
      \<or> c = 0x205F \<or> c = 0x3000)"

definition py_strip :: "str \<Rightarrow> str" where
  "py_strip s = rev (dropWhile py_isspace (rev (dropWhile py_isspace s)))"

subsection \<open>Parsing an integer\<close>

text \<open>
  \<open>int(s)\<close> on a \<open>str\<close> of ASCII characters, base 10, as CPython's \<open>PyLong_FromString\<close>
  reads it: C whitespace (tab, LF, VT, FF, CR, space) is skipped on both sides, one sign
  is allowed, then digits, where single underscores may stand between two digits.
  \<open>None\<close> is \<open>ValueError\<close>. The interpreter's optional limit on the number of digits
  (\<open>sys.set_int_max_str_digits\<close>) is not part of the model: integers are unbounded.
\<close>

definition c_isspace :: "codepoint \<Rightarrow> bool" where
  "c_isspace c = ((9 \<le> c \<and> c \<le> 13) \<or> c = 32)"

definition is_digit :: "codepoint \<Rightarrow> bool" where
  "is_digit c = (48 \<le> c \<and> c \<le> 57)"

text \<open>The digit loop: the value so far, the previous character (0 at the start), the text.
  It stops at the first character that is neither a digit nor an underscore and returns
  the value with the unread rest.\<close>

fun scan_digits :: "nat \<Rightarrow> codepoint \<Rightarrow> str \<Rightarrow> (nat \<times> str) option" where
  "scan_digits acc prev [] = (if prev = 95 then None else Some (acc, []))"
| "scan_digits acc prev (c # cs) =
     (if is_digit c then scan_digits (acc * 10 + (c - 48)) c cs
      else if c = 95 then (if prev = 95 then None else scan_digits acc c cs)
      else if prev = 95 then None
      else Some (acc, c # cs))"

definition ascii_int :: "str \<Rightarrow> int option" where
  "ascii_int s =
     (let s1 = dropWhile c_isspace s;
          neg = (case s1 of [] \<Rightarrow> False | c # _ \<Rightarrow> c = 45);
          s2 = (case s1 of [] \<Rightarrow> s1 | c # r \<Rightarrow> if c = 43 \<or> c = 45 then r else s1)
      in case s2 of
           [] \<Rightarrow> None
         | c # _ \<Rightarrow>
             if c = 95 then None
             else (case scan_digits 0 0 s2 of
                     None \<Rightarrow> None
                   | Some (n, rest) \<Rightarrow>
                       if length rest = length s2 then None
                       else if dropWhile c_isspace rest \<noteq> [] then None
                       else Some (if neg then - int n else int n)))"

definition is_ascii :: "str \<Rightarrow> bool" where
  "is_ascii s = list_all (\<lambda>c. c < 128) s"

subsection \<open>UTF-8\<close>

text \<open>\<open>s.encode("utf-8")\<close>: \<open>None\<close> is \<open>UnicodeEncodeError\<close>, raised for a lone surrogate
  (a Python \<open>str\<close> may hold one). Values from 0x110000 are not code points.\<close>

definition encode_cp :: "codepoint \<Rightarrow> bytes option" where
  "encode_cp c =
     (if c < 0x80 then Some [of_nat c]
      else if c < 0x800 then Some [of_nat (0xC0 + c div 64), of_nat (0x80 + c mod 64)]
      else if 0xD800 \<le> c \<and> c < 0xE000 then None
      else if c < 0x10000 then
        Some [of_nat (0xE0 + c div 4096), of_nat (0x80 + c div 64 mod 64), of_nat (0x80 + c mod 64)]
      else if c < 0x110000 then
        Some [of_nat (0xF0 + c div 262144), of_nat (0x80 + c div 4096 mod 64),
              of_nat (0x80 + c div 64 mod 64), of_nat (0x80 + c mod 64)]
      else None)"

fun utf8_encode :: "str \<Rightarrow> bytes option" where
  "utf8_encode [] = Some []"
| "utf8_encode (c # cs) =
     (case encode_cp c of
        None \<Rightarrow> None
      | Some b \<Rightarrow> (case utf8_encode cs of None \<Rightarrow> None | Some bs \<Rightarrow> Some (b @ bs)))"

text \<open>\<open>b.decode("utf-8")\<close>, strict: \<open>None\<close> is \<open>UnicodeDecodeError\<close>. Overlong forms,
  encoded surrogates, values above 0x10FFFF, stray continuation octets and truncated
  sequences are all refused.\<close>

definition continuation :: "byte \<Rightarrow> bool" where
  "continuation b = (0x80 \<le> unat b \<and> unat b < 0xC0)"

function utf8_decode :: "bytes \<Rightarrow> str option" where
  "utf8_decode [] = Some []"
| "utf8_decode (b0 # bs) =
     (let a = unat b0 in
      if a < 0x80 then
        (case utf8_decode bs of None \<Rightarrow> None | Some cs \<Rightarrow> Some (a # cs))
      else if 0xC2 \<le> a \<and> a < 0xE0 then
        (case bs of
           b1 # r \<Rightarrow>
             if continuation b1 then
               (case utf8_decode r of
                  None \<Rightarrow> None
                | Some cs \<Rightarrow> Some (((a - 0xC0) * 64 + (unat b1 - 0x80)) # cs))
             else None
         | _ \<Rightarrow> None)
      else if 0xE0 \<le> a \<and> a < 0xF0 then
        (case bs of
           b1 # b2 # r \<Rightarrow>
             if continuation b1 \<and> continuation b2
                \<and> (if a = 0xE0 then 0xA0 \<le> unat b1 else True)
                \<and> (if a = 0xED then unat b1 < 0xA0 else True) then
               (case utf8_decode r of
                  None \<Rightarrow> None
                | Some cs \<Rightarrow>
                    Some (((a - 0xE0) * 4096 + (unat b1 - 0x80) * 64 + (unat b2 - 0x80)) # cs))
             else None
         | _ \<Rightarrow> None)
      else if 0xF0 \<le> a \<and> a < 0xF5 then
        (case bs of
           b1 # b2 # b3 # r \<Rightarrow>
             if continuation b1 \<and> continuation b2 \<and> continuation b3
                \<and> (if a = 0xF0 then 0x90 \<le> unat b1 else True)
                \<and> (if a = 0xF4 then unat b1 < 0x90 else True) then
               (case utf8_decode r of
                  None \<Rightarrow> None
                | Some cs \<Rightarrow>
                    Some (((a - 0xF0) * 262144 + (unat b1 - 0x80) * 4096
                           + (unat b2 - 0x80) * 64 + (unat b3 - 0x80)) # cs))
             else None
         | _ \<Rightarrow> None)
      else None)"
  by pat_completeness auto
termination
  by (relation "measure length") auto

declare utf8_decode.simps(2) [simp del]

subsection \<open>The environment\<close>

text \<open>
  What the verification code takes from outside the repository and the model does not
  compute: the HMAC-SHA256 digest of a message under a key (\<open>hmac.new(key, msg,
  hashlib.sha256).digest()\<close>), and \<open>int(s)\<close> on a string with non-ASCII characters,
  which depends on the interpreter's Unicode tables of decimal digits and spaces.
  The clock is passed to each function as \<open>now_ms\<close>, the value of
  \<open>int(time.time() * 1000)\<close> at the call.
\<close>

record py_env =
  hmac_sha256 :: "bytes \<Rightarrow> bytes \<Rightarrow> bytes"
  int_nonascii :: "str \<Rightarrow> int option"

definition py_int :: "py_env \<Rightarrow> str \<Rightarrow> int option" where
  "py_int env s = (if is_ascii s then ascii_int s else int_nonascii env s)"

definition hexdigest :: "py_env \<Rightarrow> bytes \<Rightarrow> bytes \<Rightarrow> str" where
  "hexdigest env key msg = hexlify (hmac_sha256 env key msg)"

text \<open>\<open>hmac.compare_digest(a, b)\<close> on two \<open>str\<close>: \<open>TypeError\<close> unless both are ASCII.\<close>

definition compare_digest :: "str \<Rightarrow> str \<Rightarrow> exn + bool" where
  "compare_digest a b = (if is_ascii a \<and> is_ascii b then Inr (a = b) else Inl TypeError)"

section \<open>Idempotency keys (brique-105, utils/idempotency.py)\<close>

text \<open>
  \<open>secrets.token_hex(n)\<close> draws \<open>n\<close> octets from the operating system's entropy source and
  returns them in hexadecimal. The source of entropy is the function \<open>urandom\<close>, giving
  the i-th octet drawn by this call.
\<close>

definition token_hex :: "(nat \<Rightarrow> byte) \<Rightarrow> nat \<Rightarrow> str" where
  "token_hex urandom n = hexlify (map urandom [0..<n])"

text \<open>
  \<open>make_idempotency_key(provided)\<close>. \<open>now_ms\<close> is \<open>int(time.time() * 1000)\<close>.
  \<open>if provided:\<close> is Python truthiness: \<open>None\<close> and the empty string both take the
  generating branch.
\<close>

definition make_idempotency_key :: "int \<Rightarrow> (nat \<Rightarrow> byte) \<Rightarrow> str option \<Rightarrow> exn + str" where
  "make_idempotency_key now_ms urandom provided =
     (case provided of
        Some p \<Rightarrow>
          if p \<noteq> [] then
            (if length p > 128 then Inl IdempotencyKeyTooLong else Inr p)
          else
            Inr (ustr ''molam-'' @ py_str now_ms @ ustr ''-'' @ token_hex urandom 12)
      | None \<Rightarrow>
          Inr (ustr ''molam-'' @ py_str now_ms @ ustr ''-'' @ token_hex urandom 12))"

section \<open>Signature verification, brique-102 (molam_sdk/webhooks.py)\<close>

text \<open>
  Lines 49 to 55 of \<open>verify_molam_signature\<close>: the loop over \<open>header.split(",")\<close> that
  fills the dictionary \<open>parts\<close>. Unpacking \<open>part.split("=", 1)\<close> into \<open>key, value\<close>
  raises \<open>ValueError\<close> when the segment has no \<open>=\<close>.
\<close>

fun parse_parts :: "str list \<Rightarrow> (str \<rightharpoonup> str) \<Rightarrow> exn + (str \<rightharpoonup> str)" where
  "parse_parts [] parts = Inr parts"
| "parse_parts (part # rest) parts =
     (case split1 61 part of
        [key, val] \<Rightarrow> parse_parts rest (parts(key \<mapsto> val))
      | _ \<Rightarrow> Inl ValueError)"

text \<open>Lines 57 to 93: everything after the dictionary is built.\<close>

definition verify_molam_fields ::
  "py_env \<Rightarrow> int \<Rightarrow> (str \<rightharpoonup> str) \<Rightarrow> bytes \<Rightarrow> (str \<Rightarrow> str option) \<Rightarrow> int \<Rightarrow> exn + bool" where
  "verify_molam_fields env now_ms parts payload get_secret_by_kid tolerance_seconds =
     (let timestamp_str = parts (ustr ''t'');
          signature = parts (ustr ''v1'');
          kid = (case parts (ustr ''kid'') of None \<Rightarrow> ustr ''v1'' | Some k \<Rightarrow> k)
      in case (timestamp_str, signature) of
           (Some ts, Some sg) \<Rightarrow>
             if ts = [] \<or> sg = [] then Inl (WebhookVerificationError MsgMissingTimestampOrSignature)
             else
               (case py_int env ts of
                  None \<Rightarrow> Inl (WebhookVerificationError MsgInvalidTimestampFormat)
                | Some timestamp \<Rightarrow>
                    let age = \<bar>now_ms - timestamp\<bar> in
                    if age > tolerance_seconds * 1000 then
                      Inl (WebhookVerificationError
                             (MsgTimestampOutsideTolerance age (tolerance_seconds * 1000)))
                    else
                      (case get_secret_by_kid kid of
                         None \<Rightarrow> Inl (WebhookVerificationError (MsgUnknownKeyID kid))
                       | Some secret \<Rightarrow>
                           if secret = [] then Inl (WebhookVerificationError (MsgUnknownKeyID kid))
                           else
                             (case utf8_encode (ts @ ustr ''.'') of
                                None \<Rightarrow> Inl UnicodeEncodeError
                              | Some prefix \<Rightarrow>
                                  (case utf8_encode secret of
                                     None \<Rightarrow> Inl UnicodeEncodeError
                                   | Some key \<Rightarrow>
                                       (case compare_digest
                                               (hexdigest env key (prefix @ payload)) sg of
                                          Inl e \<Rightarrow> Inl e
                                        | Inr ok \<Rightarrow>
                                            if ok then Inr True
                                            else Inl (WebhookVerificationError
                                                        MsgSignatureMismatch))))))
         | _ \<Rightarrow> Inl (WebhookVerificationError MsgMissingTimestampOrSignature))"

text \<open>\<open>verify_molam_signature(header, payload, get_secret_by_kid, tolerance_seconds)\<close>.
  The resolver returns a \<open>str\<close> or \<open>None\<close>.\<close>

definition verify_molam_signature ::
  "py_env \<Rightarrow> int \<Rightarrow> str \<Rightarrow> bytes \<Rightarrow> (str \<Rightarrow> str option) \<Rightarrow> int \<Rightarrow> exn + bool" where
  "verify_molam_signature env now_ms header payload get_secret_by_kid tolerance_seconds =
     (if header = [] then Inl (WebhookVerificationError MsgMissingHeader)
      else
        (case parse_parts (py_split 44 header) Map.empty of
           Inl e \<Rightarrow> Inl (WebhookVerificationError MsgInvalidHeaderFormat)
         | Inr parts \<Rightarrow>
             verify_molam_fields env now_ms parts payload get_secret_by_kid tolerance_seconds))"

section \<open>Signature verification, brique-105 (molam_sdk/utils/webhook.py)\<close>

text \<open>The loop of \<open>parse_signature_header\<close>: as above, but key and value are stripped and
  the \<open>ValueError\<close> is turned into a \<open>SignatureError\<close> inside the loop.\<close>

fun parse_pairs :: "str list \<Rightarrow> (str \<rightharpoonup> str) \<Rightarrow> exn + (str \<rightharpoonup> str)" where
  "parse_pairs [] parts = Inr parts"
| "parse_pairs (pair # rest) parts =
     (case split1 61 pair of
        [key, val] \<Rightarrow> parse_pairs rest (parts(py_strip key \<mapsto> py_strip val))
      | _ \<Rightarrow> Inl (SignatureError MsgInvalidHeaderFormat))"

definition parse_signature_header :: "str \<Rightarrow> exn + (str \<rightharpoonup> str)" where
  "parse_signature_header header =
     (if header = [] then Inl (SignatureError MsgMissingHeader)
      else parse_pairs (py_split 44 header) Map.empty)"

text \<open>Lines 88 to 129 of \<open>verify_signature\<close>: from the check of the required fields on.
  The body is decoded, joined to the timestamp text as a \<open>str\<close>, and encoded again.
  \<open>required_fields - parts.keys()\<close> is the set of required fields that \<open>parts\<close> lacks.\<close>

definition verify_signature_fields ::
  "py_env \<Rightarrow> int \<Rightarrow> (str \<rightharpoonup> str) \<Rightarrow> bytes \<Rightarrow> (str \<Rightarrow> str option) \<Rightarrow> int \<Rightarrow> exn + bool" where
  "verify_signature_fields env now_ms parts raw_body get_secret_by_kid tolerance_ms =
     (let required_fields = {ustr ''t'', ustr ''v1'', ustr ''kid''} in
      case (parts (ustr ''t''), parts (ustr ''v1''), parts (ustr ''kid'')) of
        (Some ts, Some signature, Some kid) \<Rightarrow>
          (case py_int env ts of
             None \<Rightarrow> Inl (SignatureError MsgInvalidTimestampFormat)
           | Some timestamp_ms \<Rightarrow>
               if \<bar>now_ms - timestamp_ms\<bar> > tolerance_ms then
                 Inl (SignatureError
                        (MsgTimestampOutsideTolerance \<bar>now_ms - timestamp_ms\<bar> tolerance_ms))
               else
                 (case get_secret_by_kid kid of
                    None \<Rightarrow> Inl (SignatureError (MsgSecretNotFound kid))
                  | Some secret \<Rightarrow>
                      if secret = [] then Inl (SignatureError (MsgSecretNotFound kid))
                      else
                        (case utf8_decode raw_body of
                           None \<Rightarrow> Inl UnicodeDecodeError
                         | Some body \<Rightarrow>
                             (case utf8_encode secret of
                                None \<Rightarrow> Inl UnicodeEncodeError
                              | Some key \<Rightarrow>
                                  (case utf8_encode (ts @ ustr ''.'' @ body) of
                                     None \<Rightarrow> Inl UnicodeEncodeError
                                   | Some signed_payload \<Rightarrow>
                                       (case compare_digest
                                               (hexdigest env key signed_payload) signature of
                                          Inl e \<Rightarrow> Inl e
                                        | Inr ok \<Rightarrow>
                                            if ok then Inr True
                                            else Inl (SignatureError MsgSignatureMismatch)))))))
      | _ \<Rightarrow> Inl (SignatureError (MsgMissingRequiredFields (Set.filter (\<lambda>f. parts f = None) required_fields))))"

definition verify_signature ::
  "py_env \<Rightarrow> int \<Rightarrow> str \<Rightarrow> bytes \<Rightarrow> (str \<Rightarrow> str option) \<Rightarrow> int \<Rightarrow> exn + bool" where
  "verify_signature env now_ms header raw_body get_secret_by_kid tolerance_ms =
     (if header = [] then Inl (SignatureError MsgMissingHeader)
      else
        (case parse_signature_header header of
           Inl e \<Rightarrow> Inl e
         | Inr parts \<Rightarrow>
             verify_signature_fields env now_ms parts raw_body get_secret_by_kid tolerance_ms))"

text \<open>\<open>generate_signature(payload, secret, timestamp_ms=None, kid="1")\<close>.\<close>

definition generate_signature ::
  "py_env \<Rightarrow> int \<Rightarrow> bytes \<Rightarrow> str \<Rightarrow> int option \<Rightarrow> str \<Rightarrow> exn + str" where
  "generate_signature env now_ms payload secret timestamp_ms kid =
     (let ts = (case timestamp_ms of None \<Rightarrow> now_ms | Some t \<Rightarrow> t) in
      case utf8_decode payload of
        None \<Rightarrow> Inl UnicodeDecodeError
      | Some body \<Rightarrow>
          (case utf8_encode secret of
             None \<Rightarrow> Inl UnicodeEncodeError
           | Some key \<Rightarrow>
               (case utf8_encode (py_str ts @ ustr ''.'' @ body) of
                  None \<Rightarrow> Inl UnicodeEncodeError
                | Some signed_payload \<Rightarrow>
                    Inr (ustr ''t='' @ py_str ts @ ustr '',v1=''
                         @ hexdigest env key signed_payload @ ustr '',kid='' @ kid))))"

section \<open>Signature verification, the example handler (examples/webhook_handler.py)\<close>

text \<open>
  \<open>verify_signature(payload, signature_header, secret)\<close> of the Flask example. It takes
  the secret itself, not a resolver, and its tolerance is the module constant
  \<open>WEBHOOK_TOLERANCE_SECONDS = 300\<close>. \<open>KeyError\<close> and \<open>ValueError\<close> (which
  \<open>UnicodeEncodeError\<close> is a subclass of) are caught and become the return value
  \<open>False\<close>; the reason goes to the logger only, which is not modelled. The timestamp
  that is signed is the parsed integer, formatted again.
\<close>

definition handler_verify_signature :: "py_env \<Rightarrow> int \<Rightarrow> bytes \<Rightarrow> str \<Rightarrow> str \<Rightarrow> exn + bool" where
  "handler_verify_signature env now_ms payload signature_header secret =
     (case parse_parts (py_split 44 signature_header) Map.empty of
        Inl e \<Rightarrow> Inr False
      | Inr parts \<Rightarrow>
          (case parts (ustr ''t'') of
             None \<Rightarrow> Inr False
           | Some ts \<Rightarrow>
               (case py_int env ts of
                  None \<Rightarrow> Inr False
                | Some timestamp \<Rightarrow>
                    (case parts (ustr ''v1'') of
                       None \<Rightarrow> Inr False
                     | Some signature \<Rightarrow>
                         if \<bar>now_ms - timestamp\<bar> > 300 * 1000 then Inr False
                         else
                           (case utf8_encode (py_str timestamp @ ustr ''.'') of
                              None \<Rightarrow> Inr False
                            | Some prefix \<Rightarrow>
                                (case utf8_encode secret of
                                   None \<Rightarrow> Inr False
                                 | Some key \<Rightarrow>
                                     compare_digest
                                       (hexdigest env key (prefix @ payload)) signature))))))"

section \<open>Auxiliary notions used in the statements\<close>

definition is_hex_digit :: "codepoint \<Rightarrow> bool" where
  "is_hex_digit c = ((48 \<le> c \<and> c \<le> 57) \<or> (97 \<le> c \<and> c \<le> 102))"

text \<open>A concrete entropy source for the instances below: it always yields the octet
  \<open>0xa1\<close>.\<close>

definition sample_urandom :: "nat \<Rightarrow> byte" where
  "sample_urandom i = 0xa1"

text \<open>A plain character: ASCII, and neither a comma, an equals sign nor whitespace. The
  characters of decimal and of hexadecimal text are plain, so such text passes through
  the header unchanged.\<close>

definition plain :: "codepoint \<Rightarrow> bool" where
  "plain c = (c \<noteq> 44 \<and> c \<noteq> 61 \<and> c < 128 \<and> \<not> py_isspace c)"

text \<open>
  The error kinds of the specification (its section 7), and the kind each message of the
  code falls under. The code itself has no such type: it has two exception classes and
  their message texts.
\<close>

datatype reason =
    MalformedHeader
  | InvalidTimestamp
  | TimestampOutOfTolerance
  | UnknownKeyId
  | SignatureMismatch
  | KeyTooLong

fun reason_of_message :: "message \<Rightarrow> reason" where
  "reason_of_message MsgMissingHeader = MalformedHeader"
| "reason_of_message MsgInvalidHeaderFormat = MalformedHeader"
| "reason_of_message MsgMissingTimestampOrSignature = MalformedHeader"
| "reason_of_message (MsgMissingRequiredFields missing) = MalformedHeader"
| "reason_of_message MsgInvalidTimestampFormat = InvalidTimestamp"
| "reason_of_message (MsgTimestampOutsideTolerance age tol) = TimestampOutOfTolerance"
| "reason_of_message (MsgUnknownKeyID kid) = UnknownKeyId"
| "reason_of_message (MsgSecretNotFound kid) = UnknownKeyId"
| "reason_of_message MsgSignatureMismatch = SignatureMismatch"

fun failure_reason :: "exn + 'a \<Rightarrow> reason option" where
  "failure_reason (Inl (WebhookVerificationError m)) = Some (reason_of_message m)"
| "failure_reason (Inl (SignatureError m)) = Some (reason_of_message m)"
| "failure_reason (Inl IdempotencyKeyTooLong) = Some KeyTooLong"
| "failure_reason (Inl ValueError) = None"
| "failure_reason (Inl TypeError) = None"
| "failure_reason (Inl UnicodeDecodeError) = None"
| "failure_reason (Inl UnicodeEncodeError) = None"
| "failure_reason (Inr v) = None"

text \<open>
  The key and value a header segment contributes when it contains \<open>=\<close>, and the value
  of the last pair with a given key in a list of pairs read from left to right.
\<close>

definition segment_pair :: "str \<Rightarrow> str \<times> str" where
  "segment_pair seg =
     (takeWhile (\<lambda>c. c \<noteq> 61) seg, drop 1 (dropWhile (\<lambda>c. c \<noteq> 61) seg))"

definition stripped_pair :: "str \<Rightarrow> str \<times> str" where
  "stripped_pair seg = (py_strip (fst (segment_pair seg)), py_strip (snd (segment_pair seg)))"

fun last_value :: "('k \<times> 'v) list \<Rightarrow> 'k \<Rightarrow> 'v option" where
  "last_value [] k = None"
| "last_value ((k', v) # kvs) k =
     (case last_value kvs k of
        Some v' \<Rightarrow> Some v'
      | None \<Rightarrow> if k' = k then Some v else None)"

text \<open>The key id the brique-102 code and the example use for a parsed header:
  \<open>parts.get("kid", "v1")\<close>.\<close>

definition kid_or_default :: "(str \<rightharpoonup> str) \<Rightarrow> str" where
  "kid_or_default parts = (case parts (ustr ''kid'') of None \<Rightarrow> ustr ''v1'' | Some k \<Rightarrow> k)"

text \<open>
  Concrete inputs for the instances below. In \<open>sample_env\<close> the digest of a message is
  the key followed by the message, so the digest shows which octets were signed;
  no string with a non-ASCII character counts as an integer. \<open>resolver_for\<close> knows one
  key id, \<open>resolver_two\<close> knows two.
\<close>

definition sample_env :: py_env where
  "sample_env = \<lparr>hmac_sha256 = (\<lambda>key msg. key @ msg), int_nonascii = (\<lambda>s. None)\<rparr>"

definition resolver_for :: "str \<Rightarrow> str \<Rightarrow> str \<Rightarrow> str option" where
  "resolver_for kid secret k = (if k = kid then Some secret else None)"

definition resolver_two :: "str \<Rightarrow> str \<Rightarrow> str \<Rightarrow> str \<Rightarrow> str \<Rightarrow> str option" where
  "resolver_two kid1 secret1 kid2 secret2 k =
     (if k = kid1 then Some secret1 else if k = kid2 then Some secret2 else None)"

text \<open>
  The header the brique-102 tests build by hand (tests/test_webhooks.py, for instance
  \<open>test_verify_signature_success\<close>): the timestamp text and a period, encoded, then the
  payload; the hexadecimal digest under the encoded secret; and the three fields joined.
  The tests write the key id as a literal; here it is an argument.
\<close>

definition build_test_header :: "py_env \<Rightarrow> str \<Rightarrow> int \<Rightarrow> bytes \<Rightarrow> str \<Rightarrow> exn + str" where
  "build_test_header env secret ts payload kid =
     (case utf8_encode (py_str ts @ ustr ''.'') of
        None \<Rightarrow> Inl UnicodeEncodeError
      | Some prefix \<Rightarrow>
          (case utf8_encode secret of
             None \<Rightarrow> Inl UnicodeEncodeError
           | Some key \<Rightarrow>
               Inr (ustr ''t='' @ py_str ts @ ustr '',v1=''
                    @ hexdigest env key (prefix @ payload) @ ustr '',kid='' @ kid)))"

text \<open>A second environment, whose digest is never empty: a zero octet, the key, the
  message.\<close>

definition tagged_env :: py_env where
  "tagged_env = \<lparr>hmac_sha256 = (\<lambda>key msg. 0 # key @ msg), int_nonascii = (\<lambda>s. None)\<rparr>"

section \<open>Properties\<close>

subsection \<open>Hexadecimal text\<close>

lemma unat_byte_less: "unat (b::byte) < 256"
  using unsigned_less [of b, where ?'a = nat] by simp

lemma hex_digit_inj: "a < 16 \<Longrightarrow> b < 16 \<Longrightarrow> hex_digit a = hex_digit b \<Longrightarrow> a = b"
  unfolding hex_digit_def by (simp split: if_splits)

lemma hex_pair_inj:
  assumes hi: "hex_digit (unat (a::byte) div 16) = hex_digit (unat b div 16)"
    and lo: "hex_digit (unat a mod 16) = hex_digit (unat b mod 16)"
  shows "a = b"
proof -
  have "unat a div 16 < 16" and "unat b div 16 < 16"
    using unat_byte_less [of a] unat_byte_less [of b] by simp_all
  then have d: "unat a div 16 = unat b div 16"
    using hi by (rule hex_digit_inj)
  have "unat a mod 16 < 16" and "unat b mod 16 < 16" by simp_all
  then have m: "unat a mod 16 = unat b mod 16"
    using lo by (rule hex_digit_inj)
  have "unat a = unat a div 16 * 16 + unat a mod 16" by simp
  also have "\<dots> = unat b div 16 * 16 + unat b mod 16" by (simp only: d m)
  also have "\<dots> = unat b" by simp
  finally show ?thesis by (simp only: word_unat_eq_iff)
qed

lemma hexlify_Cons:
  "hexlify (b # bs) = hex_digit (unat b div 16) # hex_digit (unat b mod 16) # hexlify bs"
  by (simp add: hexlify_def)

lemma hexlify_Nil: "hexlify [] = []"
  by (simp add: hexlify_def)

lemma hexlify_inj: "length xs = length ys \<Longrightarrow> hexlify xs = hexlify ys \<Longrightarrow> xs = ys"
proof (induction xs ys rule: list_induct2)
  case Nil
  then show ?case by simp
next
  case (Cons x xs y ys)
  from Cons.prems have "x = y"
    by (simp only: hexlify_Cons list.inject) (rule hex_pair_inj, simp_all)
  moreover from Cons.prems have "hexlify xs = hexlify ys"
    by (simp only: hexlify_Cons list.inject)
  ultimately show ?case using Cons.IH by simp
qed

lemma length_hexlify: "length (hexlify bs) = 2 * length bs"
  by (induction bs) (simp_all add: hexlify_Cons hexlify_Nil)

lemma hex_digit_is_hex: "d < 16 \<Longrightarrow> is_hex_digit (hex_digit d)"
  unfolding hex_digit_def is_hex_digit_def by simp

lemma hexlify_chars: "list_all is_hex_digit (hexlify bs)"
proof (induction bs)
  case Nil
  then show ?case by (simp add: hexlify_Nil)
next
  case (Cons b bs)
  have "unat b div 16 < 16" using unat_byte_less [of b] by simp
  then have 1: "is_hex_digit (hex_digit (unat b div 16))" by (rule hex_digit_is_hex)
  have 2: "is_hex_digit (hex_digit (unat b mod 16))" by (rule hex_digit_is_hex) simp
  from 1 2 Cons.IH show ?case by (simp add: hexlify_Cons)
qed

subsection \<open>Decimal text\<close>

lemma dec_digits_digits: "list_all is_digit (dec_digits n)"
proof (induction n rule: dec_digits.induct)
  case (1 n)
  show ?case
  proof (cases "n < 10")
    case True
    then show ?thesis by (subst dec_digits.simps) (simp add: is_digit_def)
  next
    case False
    have "n mod 10 < 10" by simp
    then have "is_digit (48 + n mod 10)" unfolding is_digit_def by linarith
    with False "1.IH" show ?thesis by (subst dec_digits.simps) simp
  qed
qed

lemma dec_digits_nonempty: "dec_digits n \<noteq> []"
  by (subst dec_digits.simps) simp

lemma scan_digits_all:
  "list_all is_digit ds \<Longrightarrow> prev \<noteq> 95 \<Longrightarrow>
   scan_digits acc prev ds = Some (foldl (\<lambda>a c. a * 10 + (c - 48)) acc ds, [])"
proof (induction ds arbitrary: acc prev)
  case Nil
  then show ?case by simp
next
  case (Cons c cs)
  from Cons.prems have c: "is_digit c" and cs: "list_all is_digit cs" by simp_all
  from c have "c \<noteq> 95" by (simp add: is_digit_def)
  with Cons.IH [OF cs this] c show ?case by simp
qed

lemma foldl_dec_digits: "foldl (\<lambda>a c. a * 10 + (c - 48)) 0 (dec_digits n) = n"
proof (induction n rule: dec_digits.induct)
  case (1 n)
  show ?case
  proof (cases "n < 10")
    case True
    then show ?thesis by (subst dec_digits.simps) simp
  next
    case False
    with "1.IH" show ?thesis by (subst dec_digits.simps) simp
  qed
qed

lemma digit_props: "is_digit c \<Longrightarrow> \<not> c_isspace c \<and> c \<noteq> 43 \<and> c \<noteq> 45 \<and> c \<noteq> 95 \<and> c \<noteq> 44 \<and> c \<noteq> 61 \<and> c < 128 \<and> \<not> py_isspace c"
  by (simp add: is_digit_def c_isspace_def py_isspace_def)

lemma ascii_int_digits:
  assumes "list_all is_digit ds" and "ds \<noteq> []"
  shows "ascii_int ds = Some (int (foldl (\<lambda>a c. a * 10 + (c - 48)) 0 ds))"
proof -
  from assms obtain c cs where ds: "ds = c # cs" by (cases ds) auto
  with assms have c: "is_digit c" by simp
  have scan: "scan_digits 0 0 ds = Some (foldl (\<lambda>a c. a * 10 + (c - 48)) 0 ds, [])"
    using assms(1) by (rule scan_digits_all) simp
  have dw: "dropWhile c_isspace ds = ds"
    using digit_props [OF c] by (simp add: ds)
  show ?thesis
    unfolding ascii_int_def Let_def dw
    using digit_props [OF c] scan by (simp add: ds)
qed

lemma ascii_int_neg_digits:
  assumes "list_all is_digit ds" and "ds \<noteq> []"
  shows "ascii_int (45 # ds) = Some (- int (foldl (\<lambda>a c. a * 10 + (c - 48)) 0 ds))"
proof -
  from assms obtain c cs where ds: "ds = c # cs" by (cases ds) auto
  with assms have c: "is_digit c" by simp
  have scan: "scan_digits 0 0 ds = Some (foldl (\<lambda>a c. a * 10 + (c - 48)) 0 ds, [])"
    using assms(1) by (rule scan_digits_all) simp
  have dw: "dropWhile c_isspace (45 # ds) = 45 # ds"
    by (simp add: c_isspace_def)
  show ?thesis
    unfolding ascii_int_def Let_def dw
    using digit_props [OF c] scan by (simp add: ds)
qed

lemma ascii_int_py_str: "ascii_int (py_str i) = Some i"
proof (cases "i < 0")
  case True
  then show ?thesis
    by (simp add: py_str_def ascii_int_neg_digits dec_digits_digits dec_digits_nonempty
        foldl_dec_digits)
next
  case False
  then show ?thesis
    by (simp add: py_str_def ascii_int_digits dec_digits_digits dec_digits_nonempty
        foldl_dec_digits)
qed

lemma digits_plain: "list_all is_digit ds \<Longrightarrow> list_all plain ds"
  by (induction ds) (simp_all add: plain_def digit_props)

lemma py_str_plain: "list_all plain (py_str i)"
  using digits_plain [OF dec_digits_digits]
  by (simp add: py_str_def plain_def py_isspace_def)

lemma py_str_nonempty: "py_str i \<noteq> []"
  by (simp add: py_str_def dec_digits_nonempty)

lemma hex_plain: "is_hex_digit c \<Longrightarrow> plain c"
  by (auto simp add: is_hex_digit_def plain_def py_isspace_def)

subsection \<open>Splitting\<close>

lemma dropWhile_ne_none: "sep \<notin> set s \<Longrightarrow> dropWhile (\<lambda>c. c \<noteq> sep) s = []"
  by (induction s) auto

lemma takeWhile_ne_none: "sep \<notin> set s \<Longrightarrow> takeWhile (\<lambda>c. c \<noteq> sep) s = s"
  by (induction s) auto

lemma dropWhile_ne_sep: "sep \<notin> set a \<Longrightarrow> dropWhile (\<lambda>c. c \<noteq> sep) (a @ sep # r) = sep # r"
  by (induction a) auto

lemma takeWhile_ne_sep: "sep \<notin> set a \<Longrightarrow> takeWhile (\<lambda>c. c \<noteq> sep) (a @ sep # r) = a"
  by (induction a) auto

lemma dropWhile_ne_some: "sep \<in> set s \<Longrightarrow> \<exists>r. dropWhile (\<lambda>c. c \<noteq> sep) s = sep # r"
  by (induction s) auto

lemma py_split_none: "sep \<notin> set s \<Longrightarrow> py_split sep s = [s]"
  by (subst py_split.simps) (simp add: dropWhile_ne_none)

lemma py_split_sep: "sep \<notin> set a \<Longrightarrow> py_split sep (a @ sep # r) = a # py_split sep r"
  by (subst py_split.simps) (simp add: dropWhile_ne_sep takeWhile_ne_sep)

lemma split1_none: "sep \<notin> set s \<Longrightarrow> split1 sep s = [s]"
  by (simp add: split1_def dropWhile_ne_none)

lemma split1_sep: "sep \<notin> set k \<Longrightarrow> split1 sep (k @ sep # v) = [k, v]"
  by (simp add: split1_def dropWhile_ne_sep takeWhile_ne_sep)

lemma split1_some:
  assumes "sep \<in> set s"
  shows "split1 sep s = [takeWhile (\<lambda>c. c \<noteq> sep) s, drop 1 (dropWhile (\<lambda>c. c \<noteq> sep) s)]"
proof -
  from dropWhile_ne_some [OF assms] obtain r where "dropWhile (\<lambda>c. c \<noteq> sep) s = sep # r" ..
  then show ?thesis by (simp add: split1_def)
qed

lemma py_strip_plain:
  assumes "list_all plain s"
  shows "py_strip s = s"
proof (cases s rule: rev_cases)
  case Nil
  then show ?thesis by (simp add: py_strip_def)
next
  case (snoc xs x)
  with assms have l: "\<not> py_isspace x" by (simp add: plain_def)
  show ?thesis
  proof (cases s)
    case Nil
    with snoc show ?thesis by simp
  next
    case (Cons y ys)
    with assms have "\<not> py_isspace y" by (simp add: plain_def)
    then have 1: "dropWhile py_isspace s = s" by (simp add: Cons)
    from l have "dropWhile py_isspace (rev s) = rev s" by (simp add: snoc)
    with 1 show ?thesis by (simp add: py_strip_def)
  qed
qed

subsection \<open>UTF-8\<close>

lemma utf8_encode_append:
  "utf8_encode (a @ b) =
     (case utf8_encode a of
        None \<Rightarrow> None
      | Some x \<Rightarrow> (case utf8_encode b of None \<Rightarrow> None | Some y \<Rightarrow> Some (x @ y)))"
  by (induction a) (auto split: option.splits)

lemma utf8_encode_ascii: "is_ascii s \<Longrightarrow> utf8_encode s = Some (map of_nat s)"
  by (induction s) (simp_all add: is_ascii_def encode_cp_def)

lemma byte_of_unat: "of_nat (unat (b::byte)) = b"
  by simp

lemma div_mod_base:
  fixes q r k :: nat
  assumes "r < k"
  shows "(q * k + r) div k = q" and "(q * k + r) mod k = r"
  using assms by simp_all

lemma enc2_nat:
  fixes m r :: nat
  assumes "2 \<le> m" "m < 32" "r < 64"
  shows "128 \<le> m * 64 + r" "m * 64 + r < 2048"
    "(m * 64 + r) div 64 = m" "(m * 64 + r) mod 64 = r"
  using assms by simp_all

lemma enc3_nat:
  fixes m y z :: nat
  assumes m: "m < 16" and y: "y < 64" and z: "z < 64"
    and lo: "m = 0 \<Longrightarrow> 32 \<le> y" and hi: "m = 13 \<Longrightarrow> y < 32"
  shows "2048 \<le> m * 4096 + y * 64 + z" "m * 4096 + y * 64 + z < 65536"
    "\<not> (55296 \<le> m * 4096 + y * 64 + z \<and> m * 4096 + y * 64 + z < 57344)"
    "(m * 4096 + y * 64 + z) div 4096 = m"
    "(m * 4096 + y * 64 + z) div 64 mod 64 = y"
    "(m * 4096 + y * 64 + z) mod 64 = z"
proof -
  show "2048 \<le> m * 4096 + y * 64 + z" using lo by (cases "m = 0") simp_all
  show "m * 4096 + y * 64 + z < 65536" using m y z by simp
  show "\<not> (55296 \<le> m * 4096 + y * 64 + z \<and> m * 4096 + y * 64 + z < 57344)"
  proof -
    consider "m < 13" | "m = 13" | "13 < m" by linarith
    then show ?thesis using y z hi by cases simp_all
  qed
  have e1: "m * 4096 + y * 64 + z = m * 4096 + (y * 64 + z)" by simp
  have l1: "y * 64 + z < 4096" using y z by simp
  show "(m * 4096 + y * 64 + z) div 4096 = m"
    by (simp only: e1 div_mod_base(1) [OF l1])
  have e2: "m * 4096 + y * 64 + z = (m * 64 + y) * 64 + z" by simp
  show "(m * 4096 + y * 64 + z) div 64 mod 64 = y"
    by (simp only: e2 div_mod_base(1) [OF z] div_mod_base(2) [OF y])
  show "(m * 4096 + y * 64 + z) mod 64 = z"
    by (simp only: e2 div_mod_base(2) [OF z])
qed

lemma enc4_nat:
  fixes m x y z :: nat
  assumes m: "m < 5" and x: "x < 64" and y: "y < 64" and z: "z < 64"
    and lo: "m = 0 \<Longrightarrow> 16 \<le> x" and hi: "m = 4 \<Longrightarrow> x < 16"
  shows "65536 \<le> m * 262144 + x * 4096 + y * 64 + z"
    "m * 262144 + x * 4096 + y * 64 + z < 1114112"
    "(m * 262144 + x * 4096 + y * 64 + z) div 262144 = m"
    "(m * 262144 + x * 4096 + y * 64 + z) div 4096 mod 64 = x"
    "(m * 262144 + x * 4096 + y * 64 + z) div 64 mod 64 = y"
    "(m * 262144 + x * 4096 + y * 64 + z) mod 64 = z"
proof -
  show "65536 \<le> m * 262144 + x * 4096 + y * 64 + z" using lo by (cases "m = 0") simp_all
  show "m * 262144 + x * 4096 + y * 64 + z < 1114112"
  proof (cases "m = 4")
    case True
    then show ?thesis using hi y z by simp
  next
    case False
    with m have "m \<le> 3" by simp
    then have "m * 262144 \<le> 3 * 262144" by (rule mult_le_mono1)
    then show ?thesis using x y z by simp
  qed
  have e1: "m * 262144 + x * 4096 + y * 64 + z = m * 262144 + (x * 4096 + y * 64 + z)"
    by simp
  have l1: "x * 4096 + y * 64 + z < 262144" using x y z by simp
  show "(m * 262144 + x * 4096 + y * 64 + z) div 262144 = m"
    by (simp only: e1 div_mod_base(1) [OF l1])
  have e2: "m * 262144 + x * 4096 + y * 64 + z = (m * 64 + x) * 4096 + (y * 64 + z)"
    by simp
  have l2: "y * 64 + z < 4096" using y z by simp
  show "(m * 262144 + x * 4096 + y * 64 + z) div 4096 mod 64 = x"
    by (simp only: e2 div_mod_base(1) [OF l2] div_mod_base(2) [OF x])
  have e3: "m * 262144 + x * 4096 + y * 64 + z = ((m * 64 + x) * 64 + y) * 64 + z"
    by simp
  show "(m * 262144 + x * 4096 + y * 64 + z) div 64 mod 64 = y"
    by (simp only: e3 div_mod_base(1) [OF z] div_mod_base(2) [OF y])
  show "(m * 262144 + x * 4096 + y * 64 + z) mod 64 = z"
    by (simp only: e3 div_mod_base(2) [OF z])
qed

lemma encode_cp_1: "unat (b0::byte) < 128 \<Longrightarrow> encode_cp (unat b0) = Some [b0]"
  by (simp add: encode_cp_def)

lemma encode_cp_2:
  fixes b0 b1 :: byte
  assumes "194 \<le> unat b0" "unat b0 < 224" "continuation b1"
  shows "encode_cp ((unat b0 - 192) * 64 + (unat b1 - 128)) = Some [b0, b1]"
proof -
  define m where "m = unat b0 - 192"
  define r where "r = unat b1 - 128"
  have m: "2 \<le> m" "m < 32" and r: "r < 64"
    and b0: "192 + m = unat b0" and b1: "128 + r = unat b1"
    using assms unfolding m_def r_def continuation_def by linarith+
  note f = enc2_nat [OF m r]
  have "encode_cp (m * 64 + r) = Some [of_nat (192 + m), of_nat (128 + r)]"
    using f by (simp add: encode_cp_def)
  then show ?thesis by (simp only: b0 b1 byte_of_unat flip: m_def r_def)
qed

lemma encode_cp_3:
  fixes b0 b1 b2 :: byte
  assumes "224 \<le> unat b0" "unat b0 < 240" "continuation b1" "continuation b2"
    and "unat b0 = 224 \<Longrightarrow> 160 \<le> unat b1" and "unat b0 = 237 \<Longrightarrow> unat b1 < 160"
  shows "encode_cp ((unat b0 - 224) * 4096 + (unat b1 - 128) * 64 + (unat b2 - 128))
         = Some [b0, b1, b2]"
proof -
  define m where "m = unat b0 - 224"
  define y where "y = unat b1 - 128"
  define z where "z = unat b2 - 128"
  have m: "m < 16" and y: "y < 64" and z: "z < 64"
    and lo: "m = 0 \<Longrightarrow> 32 \<le> y" and hi: "m = 13 \<Longrightarrow> y < 32"
    and b0: "224 + m = unat b0" and b1: "128 + y = unat b1" and b2: "128 + z = unat b2"
    using assms unfolding m_def y_def z_def continuation_def by linarith+
  note f = enc3_nat [OF m y z lo hi]
  have "encode_cp (m * 4096 + y * 64 + z)
        = Some [of_nat (224 + m), of_nat (128 + y), of_nat (128 + z)]"
    using f by (simp add: encode_cp_def)
  then show ?thesis by (simp only: b0 b1 b2 byte_of_unat flip: m_def y_def z_def)
qed

lemma encode_cp_4:
  fixes b0 b1 b2 b3 :: byte
  assumes "240 \<le> unat b0" "unat b0 < 245"
    and "continuation b1" "continuation b2" "continuation b3"
    and "unat b0 = 240 \<Longrightarrow> 144 \<le> unat b1" and "unat b0 = 244 \<Longrightarrow> unat b1 < 144"
  shows "encode_cp ((unat b0 - 240) * 262144 + (unat b1 - 128) * 4096
                    + (unat b2 - 128) * 64 + (unat b3 - 128))
         = Some [b0, b1, b2, b3]"
proof -
  define m where "m = unat b0 - 240"
  define x where "x = unat b1 - 128"
  define y where "y = unat b2 - 128"
  define z where "z = unat b3 - 128"
  have m: "m < 5" and x: "x < 64" and y: "y < 64" and z: "z < 64"
    and lo: "m = 0 \<Longrightarrow> 16 \<le> x" and hi: "m = 4 \<Longrightarrow> x < 16"
    and b0: "240 + m = unat b0" and b1: "128 + x = unat b1"
    and b2: "128 + y = unat b2" and b3: "128 + z = unat b3"
    using assms unfolding m_def x_def y_def z_def continuation_def by linarith+
  note f = enc4_nat [OF m x y z lo hi]
  have "encode_cp (m * 262144 + x * 4096 + y * 64 + z)
        = Some [of_nat (240 + m), of_nat (128 + x), of_nat (128 + y), of_nat (128 + z)]"
    using f by (simp add: encode_cp_def)
  then show ?thesis by (simp only: b0 b1 b2 b3 byte_of_unat flip: m_def x_def y_def z_def)
qed

lemma utf8_encode_decode: "utf8_decode bs = Some cs \<Longrightarrow> utf8_encode cs = Some bs"
proof (induction bs arbitrary: cs rule: length_induct)
  case (1 bs)
  note IH = "1.IH" [rule_format]
  show ?case
  proof (cases bs)
    case Nil
    with "1.prems" show ?thesis by simp
  next
    case (Cons b0 rest)
    consider (one) "unat b0 < 128"
      | (two) "\<not> unat b0 < 128" "194 \<le> unat b0 \<and> unat b0 < 224"
      | (three) "\<not> unat b0 < 128" "\<not> (194 \<le> unat b0 \<and> unat b0 < 224)"
          "224 \<le> unat b0 \<and> unat b0 < 240"
      | (four) "\<not> unat b0 < 128" "\<not> (194 \<le> unat b0 \<and> unat b0 < 224)"
          "\<not> (224 \<le> unat b0 \<and> unat b0 < 240)" "240 \<le> unat b0 \<and> unat b0 < 245"
      | (bad) "\<not> unat b0 < 128" "\<not> (194 \<le> unat b0 \<and> unat b0 < 224)"
          "\<not> (224 \<le> unat b0 \<and> unat b0 < 240)" "\<not> (240 \<le> unat b0 \<and> unat b0 < 245)"
      by blast
    then show ?thesis
    proof cases
      case one
      with "1.prems" Cons obtain cs' where d: "utf8_decode rest = Some cs'"
        and cs: "cs = unat b0 # cs'"
        by (auto simp: utf8_decode.simps(2) split: option.splits)
      have "utf8_encode cs' = Some rest" using d by (intro IH) (simp_all add: Cons)
      with cs one show ?thesis by (simp add: encode_cp_1 Cons)
    next
      case two
      with "1.prems" Cons obtain b1 r cs' where rest: "rest = b1 # r"
        and c1: "continuation b1" and d: "utf8_decode r = Some cs'"
        and cs: "cs = ((unat b0 - 192) * 64 + (unat b1 - 128)) # cs'"
        by (auto simp: utf8_decode.simps(2) Let_def split: option.splits list.splits if_splits)
      have "utf8_encode cs' = Some r" using d by (intro IH) (simp_all add: Cons rest)
      moreover have "encode_cp ((unat b0 - 192) * 64 + (unat b1 - 128)) = Some [b0, b1]"
        using two(2) c1 by (intro encode_cp_2) simp_all
      ultimately show ?thesis by (simp add: cs Cons rest)
    next
      case three
      with "1.prems" Cons obtain b1 b2 r cs' where rest: "rest = b1 # b2 # r"
        and c1: "continuation b1" and c2: "continuation b2"
        and lo: "unat b0 = 224 \<Longrightarrow> 160 \<le> unat b1"
        and hi: "unat b0 = 237 \<Longrightarrow> unat b1 < 160"
        and d: "utf8_decode r = Some cs'"
        and cs: "cs = ((unat b0 - 224) * 4096 + (unat b1 - 128) * 64 + (unat b2 - 128)) # cs'"
        by (auto simp: utf8_decode.simps(2) Let_def split: option.splits list.splits if_splits)
      have "utf8_encode cs' = Some r" using d by (intro IH) (simp_all add: Cons rest)
      moreover have "encode_cp ((unat b0 - 224) * 4096 + (unat b1 - 128) * 64 + (unat b2 - 128))
                     = Some [b0, b1, b2]"
        using three(3) c1 c2 lo hi by (intro encode_cp_3) simp_all
      ultimately show ?thesis by (simp add: cs Cons rest)
    next
      case four
      with "1.prems" Cons obtain b1 b2 b3 r cs' where rest: "rest = b1 # b2 # b3 # r"
        and c1: "continuation b1" and c2: "continuation b2" and c3: "continuation b3"
        and lo: "unat b0 = 240 \<Longrightarrow> 144 \<le> unat b1"
        and hi: "unat b0 = 244 \<Longrightarrow> unat b1 < 144"
        and d: "utf8_decode r = Some cs'"
        and cs: "cs = ((unat b0 - 240) * 262144 + (unat b1 - 128) * 4096
                       + (unat b2 - 128) * 64 + (unat b3 - 128)) # cs'"
        by (auto simp: utf8_decode.simps(2) Let_def split: option.splits list.splits if_splits)
      have "utf8_encode cs' = Some r" using d by (intro IH) (simp_all add: Cons rest)
      moreover have "encode_cp ((unat b0 - 240) * 262144 + (unat b1 - 128) * 4096
                                + (unat b2 - 128) * 64 + (unat b3 - 128))
                     = Some [b0, b1, b2, b3]"
        using four(4) c1 c2 c3 lo hi by (intro encode_cp_4) simp_all
      ultimately show ?thesis by (simp add: cs Cons rest)
    next
      case bad
      with "1.prems" Cons show ?thesis by (simp add: utf8_decode.simps(2))
    qed
  qed
qed

subsection \<open>The dictionary of header fields\<close>

lemma last_value_override:
  "m(k \<mapsto> v) ++ last_value kvs = m ++ last_value ((k, v) # kvs)"
  by (rule ext) (simp add: map_add_def split: option.splits)

lemma parse_parts_all:
  "\<forall>seg\<in>set segs. 61 \<in> set seg \<Longrightarrow>
   parse_parts segs m = Inr (m ++ last_value (map segment_pair segs))"
proof (induction segs arbitrary: m)
  case Nil
  have "m ++ last_value [] = m" by (rule ext) (simp add: map_add_def)
  then show ?case by simp
next
  case (Cons seg segs)
  then have "61 \<in> set seg" by simp
  then have "split1 61 seg = [fst (segment_pair seg), snd (segment_pair seg)]"
    by (simp add: split1_some segment_pair_def)
  moreover have "parse_parts segs (m(fst (segment_pair seg) \<mapsto> snd (segment_pair seg)))
      = Inr (m(fst (segment_pair seg) \<mapsto> snd (segment_pair seg))
             ++ last_value (map segment_pair segs))"
    using Cons.prems by (intro Cons.IH) simp
  ultimately show ?case
    by (simp add: last_value_override)
qed

lemma parse_parts_fail:
  "\<exists>seg\<in>set segs. 61 \<notin> set seg \<Longrightarrow> parse_parts segs m = Inl ValueError"
proof (induction segs arbitrary: m)
  case Nil
  then show ?case by simp
next
  case (Cons seg segs)
  show ?case
  proof (cases "61 \<in> set seg")
    case True
    with Cons.prems have "\<exists>seg\<in>set segs. 61 \<notin> set seg" by auto
    then have "parse_parts segs (m(fst (segment_pair seg) \<mapsto> snd (segment_pair seg)))
        = Inl ValueError" by (rule Cons.IH)
    with True show ?thesis by (simp add: split1_some segment_pair_def)
  next
    case False
    then show ?thesis by (simp add: split1_none)
  qed
qed

lemma parse_pairs_all:
  "\<forall>seg\<in>set segs. 61 \<in> set seg \<Longrightarrow>
   parse_pairs segs m = Inr (m ++ last_value (map stripped_pair segs))"
proof (induction segs arbitrary: m)
  case Nil
  have "m ++ last_value [] = m" by (rule ext) (simp add: map_add_def)
  then show ?case by simp
next
  case (Cons seg segs)
  obtain k v where sp: "stripped_pair seg = (k, v)" by (cases "stripped_pair seg")
  then have k: "k = py_strip (fst (segment_pair seg))"
    and v: "v = py_strip (snd (segment_pair seg))"
    by (simp_all add: stripped_pair_def)
  from Cons.prems have "61 \<in> set seg" by simp
  then have "split1 61 seg = [fst (segment_pair seg), snd (segment_pair seg)]"
    by (simp add: split1_some segment_pair_def)
  then have "parse_pairs (seg # segs) m = parse_pairs segs (m(k \<mapsto> v))"
    by (simp add: k v)
  also have "\<dots> = Inr (m(k \<mapsto> v) ++ last_value (map stripped_pair segs))"
    using Cons.prems by (intro Cons.IH) simp
  also have "m(k \<mapsto> v) ++ last_value (map stripped_pair segs)
      = m ++ last_value (map stripped_pair (seg # segs))"
    by (simp only: last_value_override list.map sp)
  finally show ?case .
qed

lemma parse_pairs_fail:
  "\<exists>seg\<in>set segs. 61 \<notin> set seg \<Longrightarrow>
   parse_pairs segs m = Inl (SignatureError MsgInvalidHeaderFormat)"
proof (induction segs arbitrary: m)
  case Nil
  then show ?case by simp
next
  case (Cons seg segs)
  show ?case
  proof (cases "61 \<in> set seg")
    case True
    with Cons.prems have "\<exists>seg\<in>set segs. 61 \<notin> set seg" by auto
    then have "parse_pairs segs (m(py_strip (fst (segment_pair seg)) \<mapsto> py_strip (snd (segment_pair seg))))
        = Inl (SignatureError MsgInvalidHeaderFormat)" by (rule Cons.IH)
    with True show ?thesis by (simp add: split1_some segment_pair_def)
  next
    case False
    then show ?thesis by (simp add: split1_none)
  qed
qed

lemma empty_add: "Map.empty ++ m = m"
  by simp

subsection \<open>Unfolding the model on concrete inputs\<close>

lemmas run_defs = ustr_def ubytes_def py_split.simps split1_def py_strip_def py_isspace_def
  py_int_def is_ascii_def ascii_int_def c_isspace_def is_digit_def encode_cp_def
  compare_digest_def hexdigest_def hexlify_def hex_digit_def sample_env_def resolver_for_def
  resolver_two_def verify_molam_signature_def verify_molam_fields_def verify_signature_def
  verify_signature_fields_def parse_signature_header_def handler_verify_signature_def
  generate_signature_def py_str_def dec_digits.simps utf8_decode.simps continuation_def
  segment_pair_def stripped_pair_def kid_or_default_def tagged_env_def build_test_header_def

subsection \<open>Encoding the signed text\<close>

lemma is_ascii_py_str: "is_ascii (py_str i)"
proof -
  have "list_all plain (py_str i)" by (rule py_str_plain)
  then show ?thesis
    unfolding is_ascii_def by (induction "py_str i") (auto simp: plain_def list_all_iff)
qed

lemma utf8_encode_dot: "utf8_encode (ustr ''.'') = Some [46]"
  by (simp add: ustr_def encode_cp_def)

lemma utf8_encode_snoc_dot:
  "utf8_encode ts = Some tb \<Longrightarrow> utf8_encode (ts @ ustr ''.'') = Some (tb @ [46])"
  by (simp add: utf8_encode_append utf8_encode_dot)

lemma utf8_encode_signed:
  "utf8_encode ts = Some tb \<Longrightarrow> utf8_decode raw = Some body \<Longrightarrow>
   utf8_encode (ts @ ustr ''.'' @ body) = Some (tb @ [46] @ raw)"
  by (simp add: utf8_encode_append utf8_encode_dot utf8_encode_decode)

subsection \<open>ASCII headers have ASCII fields\<close>

lemma is_ascii_iff: "is_ascii s \<longleftrightarrow> (\<forall>c\<in>set s. c < 128)"
  by (simp add: is_ascii_def list_all_iff)

lemma py_split_subset: "seg \<in> set (py_split sep s) \<Longrightarrow> set seg \<subseteq> set s"
proof (induction sep s rule: py_split.induct)
  case (1 sep s)
  show ?case
  proof (cases "dropWhile (\<lambda>c. c \<noteq> sep) s")
    case Nil
    with "1.prems" show ?thesis by (subst (asm) py_split.simps) simp
  next
    case (Cons c r)
    have sub: "set r \<subseteq> set s"
      by (metis Cons set_dropWhileD set_subset_Cons subsetI subset_trans)
    from "1.prems" Cons have "seg = takeWhile (\<lambda>c. c \<noteq> sep) s \<or> seg \<in> set (py_split sep r)"
      by (subst (asm) py_split.simps) simp
    then show ?thesis
    proof
      assume "seg = takeWhile (\<lambda>c. c \<noteq> sep) s"
      then show ?thesis by (auto dest: set_takeWhileD)
    next
      assume "seg \<in> set (py_split sep r)"
      then have "set seg \<subseteq> set r" using Cons by (intro "1.IH")
      with sub show ?thesis by blast
    qed
  qed
qed

lemma segment_pair_subset:
  "set (fst (segment_pair seg)) \<subseteq> set seg \<and> set (snd (segment_pair seg)) \<subseteq> set seg"
  by (auto simp: segment_pair_def dest: set_takeWhileD set_dropWhileD in_set_dropD)

lemma parse_parts_values:
  "parse_parts segs m = Inr parts \<Longrightarrow> \<forall>seg\<in>set segs. set seg \<subseteq> S \<Longrightarrow>
   \<forall>k v. m k = Some v \<longrightarrow> set v \<subseteq> S \<Longrightarrow> parts k = Some v \<Longrightarrow> set v \<subseteq> S"
proof (induction segs arbitrary: m)
  case Nil
  then show ?case by simp
next
  case (Cons seg segs)
  show ?case
  proof (cases "61 \<in> set seg")
    case True
    let ?m = "m(fst (segment_pair seg) \<mapsto> snd (segment_pair seg))"
    from True Cons.prems(1) have p: "parse_parts segs ?m = Inr parts"
      by (simp add: split1_some segment_pair_def)
    have "set (snd (segment_pair seg)) \<subseteq> S"
      using segment_pair_subset [of seg] Cons.prems(2) by auto
    with Cons.prems(3) have m: "\<forall>k v. ?m k = Some v \<longrightarrow> set v \<subseteq> S" by auto
    from Cons.prems(2) have "\<forall>seg\<in>set segs. set seg \<subseteq> S" by simp
    from Cons.IH [OF p this m Cons.prems(4)] show ?thesis .
  next
    case False
    with Cons.prems(1) show ?thesis by (simp add: split1_none)
  qed
qed

lemma parsed_values_ascii:
  assumes "is_ascii header" and "parse_parts (py_split 44 header) Map.empty = Inr parts"
    and "parts k = Some v"
  shows "is_ascii v"
proof -
  have "\<forall>seg\<in>set (py_split 44 header). set seg \<subseteq> set header"
    by (auto dest: py_split_subset)
  from parse_parts_values [OF assms(2) this _ assms(3)] have "set v \<subseteq> set header" by simp
  with assms(1) show ?thesis by (auto simp: is_ascii_iff)
qed

lemma is_ascii_hexlify: "is_ascii (hexlify bs)"
proof -
  have "list_all is_hex_digit (hexlify bs)" by (rule hexlify_chars)
  then show ?thesis
    by (auto simp: is_ascii_iff list_all_iff is_hex_digit_def)
qed

lemma compare_digest_ascii:
  "is_ascii sg \<Longrightarrow> compare_digest (hexdigest env key msg) sg = Inr (hexdigest env key msg = sg)"
  by (simp add: compare_digest_def hexdigest_def is_ascii_hexlify)

subsection \<open>Headers built by the signer\<close>

lemma plain_no_comma: "list_all plain s \<Longrightarrow> 44 \<notin> set s"
  by (auto simp: list_all_iff plain_def)

lemma hexlify_plain: "list_all plain (hexlify bs)"
proof -
  have "list_all is_hex_digit (hexlify bs)" by (rule hexlify_chars)
  then show ?thesis by (auto simp: list_all_iff intro: hex_plain)
qed

lemma header_segments:
  assumes "44 \<notin> set T" "44 \<notin> set H" "44 \<notin> set K"
  shows "py_split 44 (ustr ''t='' @ T @ ustr '',v1='' @ H @ ustr '',kid='' @ K)
         = [ustr ''t='' @ T, ustr ''v1='' @ H, ustr ''kid='' @ K]"
proof -
  have e: "ustr ''t='' @ T @ ustr '',v1='' @ H @ ustr '',kid='' @ K
      = (ustr ''t='' @ T) @ 44 # ((ustr ''v1='' @ H) @ 44 # (ustr ''kid='' @ K))"
    by (simp add: ustr_def)
  have 1: "44 \<notin> set (ustr ''t='' @ T)" using assms(1) by (simp add: ustr_def)
  have 2: "44 \<notin> set (ustr ''v1='' @ H)" using assms(2) by (simp add: ustr_def)
  have 3: "44 \<notin> set (ustr ''kid='' @ K)" using assms(3) by (simp add: ustr_def)
  show ?thesis
    unfolding e by (simp only: py_split_sep [OF 1] py_split_sep [OF 2] py_split_none [OF 3])
qed

lemma split1_field:
  "split1 61 (ustr ''t='' @ v) = [ustr ''t'', v]"
  "split1 61 (ustr ''v1='' @ v) = [ustr ''v1'', v]"
  "split1 61 (ustr ''kid='' @ v) = [ustr ''kid'', v]"
proof -
  have "split1 61 (ustr ''t'' @ 61 # v) = [ustr ''t'', v]"
    by (rule split1_sep) (simp add: ustr_def)
  then show "split1 61 (ustr ''t='' @ v) = [ustr ''t'', v]" by (simp add: ustr_def)
  have "split1 61 (ustr ''v1'' @ 61 # v) = [ustr ''v1'', v]"
    by (rule split1_sep) (simp add: ustr_def)
  then show "split1 61 (ustr ''v1='' @ v) = [ustr ''v1'', v]" by (simp add: ustr_def)
  have "split1 61 (ustr ''kid'' @ 61 # v) = [ustr ''kid'', v]"
    by (rule split1_sep) (simp add: ustr_def)
  then show "split1 61 (ustr ''kid='' @ v) = [ustr ''kid'', v]" by (simp add: ustr_def)
qed

lemma py_strip_names:
  "py_strip (ustr ''t'') = ustr ''t''" "py_strip (ustr ''v1'') = ustr ''v1''"
  "py_strip (ustr ''kid'') = ustr ''kid''"
  by (simp_all add: ustr_def py_strip_def py_isspace_def)

lemma parse_generated:
  assumes T: "list_all plain T" and H: "list_all plain H" and K: "44 \<notin> set K"
  shows "parse_signature_header (ustr ''t='' @ T @ ustr '',v1='' @ H @ ustr '',kid='' @ K)
         = Inr [ustr ''t'' \<mapsto> T, ustr ''v1'' \<mapsto> H, ustr ''kid'' \<mapsto> py_strip K]"
proof -
  have ne: "ustr ''t='' @ T @ ustr '',v1='' @ H @ ustr '',kid='' @ K \<noteq> []"
    by (simp add: ustr_def)
  have segs: "py_split 44 (ustr ''t='' @ T @ ustr '',v1='' @ H @ ustr '',kid='' @ K)
         = [ustr ''t='' @ T, ustr ''v1='' @ H, ustr ''kid='' @ K]"
    using plain_no_comma [OF T] plain_no_comma [OF H] K by (rule header_segments)
  show ?thesis
    unfolding parse_signature_header_def segs using ne
    by (simp add: split1_field py_strip_names py_strip_plain [OF T] py_strip_plain [OF H])
qed

lemma parse_parts_generated:
  assumes T: "44 \<notin> set T" and H: "44 \<notin> set H" and K: "44 \<notin> set K"
  shows "parse_parts (py_split 44 (ustr ''t='' @ T @ ustr '',v1='' @ H @ ustr '',kid='' @ K))
           Map.empty
         = Inr [ustr ''t'' \<mapsto> T, ustr ''v1'' \<mapsto> H, ustr ''kid'' \<mapsto> K]"
  unfolding header_segments [OF T H K] by (simp add: split1_field)

lemma field_names_distinct:
  "ustr ''t'' \<noteq> ustr ''v1''" "ustr ''t'' \<noteq> ustr ''kid''" "ustr ''v1'' \<noteq> ustr ''kid''"
  "ustr ''v1'' \<noteq> ustr ''t''" "ustr ''kid'' \<noteq> ustr ''t''" "ustr ''kid'' \<noteq> ustr ''v1''"
  by (simp_all add: ustr_def)

lemma py_int_py_str: "py_int env (py_str i) = Some i"
  by (simp add: py_int_def is_ascii_py_str ascii_int_py_str)

lemma generate_signature_Inr:
  assumes "generate_signature env now_gen payload secret timestamp_ms kid = Inr header"
  obtains body key signed where "utf8_decode payload = Some body"
    and "utf8_encode secret = Some key"
    and "utf8_encode (py_str (case timestamp_ms of None \<Rightarrow> now_gen | Some t \<Rightarrow> t)
           @ ustr ''.'' @ body) = Some signed"
    and "header = ustr ''t='' @ py_str (case timestamp_ms of None \<Rightarrow> now_gen | Some t \<Rightarrow> t)
           @ ustr '',v1='' @ hexdigest env key signed @ ustr '',kid='' @ kid"
  using assms
  by (auto simp: generate_signature_def Let_def split: option.splits)

lemma generate_verify:
  assumes gen: "generate_signature env now_gen payload secret timestamp_ms kid = Inr header"
    and secret: "secret \<noteq> []"
    and kid: "44 \<notin> set kid" "py_strip kid = kid"
    and get: "get_secret kid = Some secret"
    and tol: "\<bar>now_ms - (case timestamp_ms of None \<Rightarrow> now_gen | Some t \<Rightarrow> t)\<bar> \<le> tolerance_ms"
  shows "verify_signature env now_ms header payload get_secret tolerance_ms = Inr True"
proof -
  define ts where "ts = (case timestamp_ms of None \<Rightarrow> now_gen | Some t \<Rightarrow> t)"
  from gen obtain body key signed where d: "utf8_decode payload = Some body"
    and k: "utf8_encode secret = Some key"
    and s: "utf8_encode (py_str ts @ ustr ''.'' @ body) = Some signed"
    and h: "header = ustr ''t='' @ py_str ts @ ustr '',v1='' @ hexdigest env key signed
              @ ustr '',kid='' @ kid"
    unfolding ts_def by (rule generate_signature_Inr)
  have hp: "list_all plain (hexdigest env key signed)"
    by (simp add: hexdigest_def hexlify_plain)
  have p: "parse_signature_header header
      = Inr [ustr ''t'' \<mapsto> py_str ts, ustr ''v1'' \<mapsto> hexdigest env key signed,
             ustr ''kid'' \<mapsto> kid]"
    unfolding h using parse_generated [OF py_str_plain hp kid(1)] by (simp add: kid(2))
  have ne: "header \<noteq> []" by (simp add: h ustr_def)
  have c: "compare_digest (hexdigest env key signed) (hexdigest env key signed) = Inr True"
    by (simp add: compare_digest_def hexdigest_def is_ascii_hexlify)
  from tol have tol': "\<not> tolerance_ms < \<bar>now_ms - ts\<bar>" by (simp add: ts_def)
  show ?thesis
    unfolding verify_signature_def verify_signature_fields_def p
    using ne tol' get secret d k s c
    by (simp add: field_names_distinct py_int_py_str)
qed

lemma hexlify_nonempty: "bs \<noteq> [] \<Longrightarrow> hexlify bs \<noteq> []"
  by (cases bs) (simp_all add: hexlify_Cons)

lemma build_verify:
  assumes gen: "build_test_header env secret ts payload kid = Inr header"
    and digest: "\<forall>k m. hmac_sha256 env k m \<noteq> []"
    and secret: "secret \<noteq> []"
    and kid: "44 \<notin> set kid"
    and get: "get_secret kid = Some secret"
    and tol: "\<bar>now_ms - ts\<bar> \<le> tolerance_seconds * 1000"
  shows "verify_molam_signature env now_ms header payload get_secret tolerance_seconds = Inr True"
proof -
  from gen obtain prefix key where pre: "utf8_encode (py_str ts @ ustr ''.'') = Some prefix"
    and k: "utf8_encode secret = Some key"
    and h: "header = ustr ''t='' @ py_str ts @ ustr '',v1=''
              @ hexdigest env key (prefix @ payload) @ ustr '',kid='' @ kid"
    by (auto simp: build_test_header_def split: option.splits)
  let ?sg = "hexdigest env key (prefix @ payload)"
  have hp: "list_all plain ?sg" by (simp add: hexdigest_def hexlify_plain)
  have sne: "?sg \<noteq> []" using digest by (simp add: hexdigest_def hexlify_nonempty)
  have p: "parse_parts (py_split 44 header) Map.empty
      = Inr [ustr ''t'' \<mapsto> py_str ts, ustr ''v1'' \<mapsto> ?sg, ustr ''kid'' \<mapsto> kid]"
    unfolding h
    using plain_no_comma [OF py_str_plain] plain_no_comma [OF hp] kid
    by (rule parse_parts_generated)
  have ne: "header \<noteq> []" by (simp add: h ustr_def)
  have c: "compare_digest ?sg ?sg = Inr True"
    by (simp add: compare_digest_def hexdigest_def is_ascii_hexlify)
  from tol have tol': "\<not> tolerance_seconds * 1000 < \<bar>now_ms - ts\<bar>" by simp
  show ?thesis
    unfolding verify_molam_signature_def verify_molam_fields_def p
    using ne tol' get secret pre k c sne
    by (simp add: field_names_distinct py_int_py_str py_str_nonempty)
qed

lemma generate_signature_succeeds:
  "(\<exists>h. generate_signature env now_gen payload secret timestamp_ms kid = Inr h)
   \<longleftrightarrow> utf8_decode payload \<noteq> None \<and> utf8_encode secret \<noteq> None"
proof
  assume "\<exists>h. generate_signature env now_gen payload secret timestamp_ms kid = Inr h"
  then obtain h where "generate_signature env now_gen payload secret timestamp_ms kid = Inr h" ..
  then show "utf8_decode payload \<noteq> None \<and> utf8_encode secret \<noteq> None"
    by (rule generate_signature_Inr) simp
next
  define ts where "ts = (case timestamp_ms of None \<Rightarrow> now_gen | Some t \<Rightarrow> t)"
  assume "utf8_decode payload \<noteq> None \<and> utf8_encode secret \<noteq> None"
  then obtain body key where d: "utf8_decode payload = Some body"
    and k: "utf8_encode secret = Some key" by auto
  have "utf8_encode (py_str ts) = Some (map of_nat (py_str ts))"
    by (rule utf8_encode_ascii) (rule is_ascii_py_str)
  then have "utf8_encode (py_str ts @ ustr ''.'' @ body)
      = Some (map of_nat (py_str ts) @ [46] @ payload)"
    using d by (rule utf8_encode_signed)
  with d k show "\<exists>h. generate_signature env now_gen payload secret timestamp_ms kid = Inr h"
    by (simp add: generate_signature_def Let_def flip: ts_def)
qed

lemma py_int_hmac_update: "py_int (env\<lparr>hmac_sha256 := digest\<rparr>) s = py_int env s"
  by (simp add: py_int_def)

subsection \<open>Idempotency keys\<close>

text \<open>
  Claim C9. \<open>make_idempotency_key\<close> called with the empty string does not return it:
  the empty string takes the same branch as an absent key, a key is generated, and for
  no input at all is the returned key empty.
\<close>

theorem make_key_empty_is_absent:
  "make_idempotency_key now_ms urandom (Some []) = make_idempotency_key now_ms urandom None
   \<and> make_idempotency_key now_ms urandom (Some [])
       = Inr (ustr ''molam-'' @ py_str now_ms @ ustr ''-'' @ token_hex urandom 12)
   \<and> make_idempotency_key now_ms urandom provided \<noteq> Inr []"
  by (auto simp: make_idempotency_key_def ustr_def split: option.splits)

theorem make_key_empty_is_absent_witness:
  "make_idempotency_key 1705420800000 sample_urandom (Some [])
     = Inr (ustr ''molam-1705420800000-a1a1a1a1a1a1a1a1a1a1a1a1'')
   \<and> make_idempotency_key 1705420800000 sample_urandom (Some []) \<noteq> Inr []"
  using make_key_empty_is_absent [of 1705420800000 sample_urandom "Some []"]
  by (simp add: make_idempotency_key_def py_str_def dec_digits.simps token_hex_def hexlify_def
      hex_digit_def sample_urandom_def ustr_def upt_rec)

text \<open>
  Claim C6, as stated, promises that every provided string of at most 128 characters is
  returned unchanged. The empty string has length 0 and is not returned: a key is
  generated instead.
\<close>

theorem make_key_unchanged_counterexample:
  "length ([] :: str) \<le> 128
   \<and> make_idempotency_key 1705420800000 sample_urandom (Some [])
       = Inr (ustr ''molam-1705420800000-a1a1a1a1a1a1a1a1a1a1a1a1'')
   \<and> make_idempotency_key 1705420800000 sample_urandom (Some []) \<noteq> Inr []"
  by (simp add: make_idempotency_key_def py_str_def dec_digits.simps token_hex_def hexlify_def
      hex_digit_def sample_urandom_def ustr_def upt_rec)

text \<open>
  Claim C6, amended. Every provided non-empty string of at most 128 characters is
  returned unchanged; every provided string of more than 128 characters fails with the
  too-long error and is never truncated; with no key provided the result is the prefix
  \<open>molam\<close>, a dash, the epoch-millisecond clock in decimal, a dash, and the hexadecimal
  text of 12 octets from the entropy source. That suffix is 24 lowercase hexadecimal
  digits and determines all 12 octets, so it carries the 96 bits that were drawn.
\<close>

theorem make_key_contract:
  "(p \<noteq> [] \<and> length p \<le> 128 \<longrightarrow> make_idempotency_key now_ms urandom (Some p) = Inr p)
   \<and> (length p > 128 \<longrightarrow> make_idempotency_key now_ms urandom (Some p) = Inl IdempotencyKeyTooLong)
   \<and> make_idempotency_key now_ms urandom None
       = Inr (ustr ''molam-'' @ py_str now_ms @ ustr ''-'' @ hexlify (map urandom [0..<12]))
   \<and> length (hexlify (map urandom [0..<12])) = 24
   \<and> list_all is_hex_digit (hexlify (map urandom [0..<12]))
   \<and> (hexlify (map urandom [0..<12]) = hexlify (map urandom' [0..<12])
        \<longrightarrow> (\<forall>i<12. urandom i = urandom' i))"
proof -
  have inj: "\<forall>i<12. urandom i = urandom' i"
    if "hexlify (map urandom [0..<12]) = hexlify (map urandom' [0..<12])"
  proof -
    have "map urandom [0..<12] = map urandom' [0..<12]"
      using that by (intro hexlify_inj) simp_all
    then show ?thesis by (simp only: map_eq_conv) simp
  qed
  have "length p > 128 \<Longrightarrow> p \<noteq> []" by auto
  then show ?thesis
    using inj hexlify_chars [of "map urandom [0..<12]"]
    by (auto simp: make_idempotency_key_def token_hex_def length_hexlify)
qed

theorem make_key_contract_witness:
  "make_idempotency_key 1705420800000 sample_urandom (Some (ustr ''caller-key''))
     = Inr (ustr ''caller-key'')
   \<and> make_idempotency_key 1705420800000 sample_urandom (Some (replicate 129 120))
     = Inl IdempotencyKeyTooLong
   \<and> make_idempotency_key 1705420800000 sample_urandom None
     = Inr (ustr ''molam-1705420800000-a1a1a1a1a1a1a1a1a1a1a1a1'')
   \<and> sample_urandom 11 = sample_urandom 0"
  using make_key_contract [of "ustr ''caller-key''" 1705420800000 sample_urandom sample_urandom]
    make_key_contract [of "replicate 129 120" 1705420800000 sample_urandom sample_urandom]
  by (simp add: py_str_def dec_digits.simps hexlify_def hex_digit_def sample_urandom_def
      ustr_def upt_rec)

subsection \<open>The freshness window\<close>

text \<open>
  Claim C2. For a header that parses, has the required fields and an integer timestamp
  \<open>t\<close>, verification fails with the out-of-tolerance kind exactly when
  \<open>|now_ms - t|\<close> is strictly greater than the tolerance in milliseconds (in brique-102
  the argument is in seconds and is multiplied by 1000). The condition is on the absolute
  difference, so past and future are treated alike, and an age equal to the tolerance is
  accepted.
\<close>

theorem timestamp_tolerance_window:
  "(header \<noteq> [] \<and> parse_parts (py_split 44 header) Map.empty = Inr parts
      \<and> parts (ustr ''t'') = Some ts \<and> parts (ustr ''v1'') = Some sg \<and> ts \<noteq> [] \<and> sg \<noteq> []
      \<and> py_int env ts = Some t
    \<longrightarrow> (failure_reason (verify_molam_signature env now_ms header payload get_secret
                             tolerance_seconds) = Some TimestampOutOfTolerance
         \<longleftrightarrow> \<bar>now_ms - t\<bar> > tolerance_seconds * 1000))
   \<and> (parse_signature_header header = Inr pairs
      \<and> pairs (ustr ''t'') = Some ts' \<and> pairs (ustr ''v1'') = Some sg'
      \<and> pairs (ustr ''kid'') = Some kid \<and> py_int env ts' = Some t'
    \<longrightarrow> (failure_reason (verify_signature env now_ms header payload get_secret tolerance_ms)
           = Some TimestampOutOfTolerance
         \<longleftrightarrow> \<bar>now_ms - t'\<bar> > tolerance_ms))"
proof (intro conjI impI)
  assume a: "header \<noteq> [] \<and> parse_parts (py_split 44 header) Map.empty = Inr parts
      \<and> parts (ustr ''t'') = Some ts \<and> parts (ustr ''v1'') = Some sg \<and> ts \<noteq> [] \<and> sg \<noteq> []
      \<and> py_int env ts = Some t"
  then show "failure_reason (verify_molam_signature env now_ms header payload get_secret
                             tolerance_seconds) = Some TimestampOutOfTolerance
         \<longleftrightarrow> \<bar>now_ms - t\<bar> > tolerance_seconds * 1000"
    by (simp add: verify_molam_signature_def verify_molam_fields_def Let_def compare_digest_def
        split: option.splits sum.splits)
next
  assume b: "parse_signature_header header = Inr pairs
      \<and> pairs (ustr ''t'') = Some ts' \<and> pairs (ustr ''v1'') = Some sg'
      \<and> pairs (ustr ''kid'') = Some kid \<and> py_int env ts' = Some t'"
  then have "header \<noteq> []" by (auto simp: parse_signature_header_def)
  with b show "failure_reason (verify_signature env now_ms header payload get_secret tolerance_ms)
           = Some TimestampOutOfTolerance
         \<longleftrightarrow> \<bar>now_ms - t'\<bar> > tolerance_ms"
    by (simp add: verify_signature_def verify_signature_fields_def Let_def compare_digest_def
        split: option.splits sum.splits)
qed


theorem timestamp_tolerance_window_witness:
  "failure_reason (verify_molam_signature sample_env 301001 (ustr ''t=1000,v1=ab'')
       (ubytes ''{}'') (resolver_for (ustr ''v1'') (ustr ''s'')) 300)
     = Some TimestampOutOfTolerance
   \<and> failure_reason (verify_molam_signature sample_env 301000 (ustr ''t=1000,v1=ab'')
       (ubytes ''{}'') (resolver_for (ustr ''v1'') (ustr ''s'')) 300)
     = Some SignatureMismatch
   \<and> failure_reason (verify_signature sample_env 1000 (ustr ''t=301001,v1=ab,kid=1'')
       (ubytes ''{}'') (resolver_for (ustr ''1'') (ustr ''s'')) 300000)
     = Some TimestampOutOfTolerance
   \<and> failure_reason (verify_signature sample_env 1000 (ustr ''t=301000,v1=ab,kid=1'')
       (ubytes ''{}'') (resolver_for (ustr ''1'') (ustr ''s'')) 300000)
     = Some SignatureMismatch"
proof -
  have pA: "parse_parts (py_split 44 (ustr ''t=1000,v1=ab'')) Map.empty
      = Inr [ustr ''t'' \<mapsto> ustr ''1000'', ustr ''v1'' \<mapsto> ustr ''ab'']"
    by (simp add: run_defs)
  have pB: "parse_signature_header (ustr ''t=301001,v1=ab,kid=1'')
      = Inr [ustr ''t'' \<mapsto> ustr ''301001'', ustr ''v1'' \<mapsto> ustr ''ab'', ustr ''kid'' \<mapsto> ustr ''1'']"
    by (simp add: run_defs)
  have iA: "py_int sample_env (ustr ''1000'') = Some 1000"
    and iB: "py_int sample_env (ustr ''301001'') = Some 301001"
    by (simp_all add: run_defs)
  have 1: "failure_reason (verify_molam_signature sample_env 301001 (ustr ''t=1000,v1=ab'')
       (ubytes ''{}'') (resolver_for (ustr ''v1'') (ustr ''s'')) 300)
     = Some TimestampOutOfTolerance"
    using timestamp_tolerance_window [of "ustr ''t=1000,v1=ab''"
        "[ustr ''t'' \<mapsto> ustr ''1000'', ustr ''v1'' \<mapsto> ustr ''ab'']" "ustr ''1000''" "ustr ''ab''"
        sample_env 1000 301001 "ubytes ''{}''" "resolver_for (ustr ''v1'') (ustr ''s'')" 300] pA iA
    by (simp add: ustr_def)
  have 3: "failure_reason (verify_signature sample_env 1000 (ustr ''t=301001,v1=ab,kid=1'')
       (ubytes ''{}'') (resolver_for (ustr ''1'') (ustr ''s'')) 300000)
     = Some TimestampOutOfTolerance"
    using timestamp_tolerance_window [of "ustr ''t=301001,v1=ab,kid=1''" _ _ _ sample_env _ 1000
        "ubytes ''{}''" "resolver_for (ustr ''1'') (ustr ''s'')" _
        "[ustr ''t'' \<mapsto> ustr ''301001'', ustr ''v1'' \<mapsto> ustr ''ab'', ustr ''kid'' \<mapsto> ustr ''1'']"
        "ustr ''301001''" "ustr ''ab''" "ustr ''1''" 301001 300000] pB iB
    by (simp add: ustr_def)
  have 2: "failure_reason (verify_molam_signature sample_env 301000 (ustr ''t=1000,v1=ab'')
       (ubytes ''{}'') (resolver_for (ustr ''v1'') (ustr ''s'')) 300)
     = Some SignatureMismatch"
    by (simp add: run_defs)
  have 4: "failure_reason (verify_signature sample_env 1000 (ustr ''t=301000,v1=ab,kid=1'')
       (ubytes ''{}'') (resolver_for (ustr ''1'') (ustr ''s'')) 300000)
     = Some SignatureMismatch"
    by (simp add: run_defs)
  from 1 2 3 4 show ?thesis by simp
qed

subsection \<open>Repeated keys in the header\<close>

text \<open>
  Claim C10. When every segment of a non-empty header contains \<open>=\<close>, parsing succeeds
  whether or not keys repeat, in brique-102 and in brique-105 alike; the dictionary
  holds, for each key, the value of its last segment from left to right (stripped of
  surrounding whitespace in brique-105); and verification is carried out on that
  dictionary, so earlier values of a repeated key have no effect on the outcome.
\<close>

theorem duplicate_keys_last_wins:
  "header \<noteq> [] \<and> (\<forall>seg\<in>set (py_split 44 header). 61 \<in> set seg)
   \<longrightarrow> parse_parts (py_split 44 header) Map.empty
         = Inr (last_value (map segment_pair (py_split 44 header)))
       \<and> verify_molam_signature env now_ms header payload get_secret tolerance_seconds
         = verify_molam_fields env now_ms (last_value (map segment_pair (py_split 44 header)))
             payload get_secret tolerance_seconds
       \<and> parse_signature_header header
         = Inr (last_value (map stripped_pair (py_split 44 header)))
       \<and> verify_signature env now_ms header payload get_secret tolerance_ms
         = verify_signature_fields env now_ms
             (last_value (map stripped_pair (py_split 44 header)))
             payload get_secret tolerance_ms"
proof (intro impI)
  assume a: "header \<noteq> [] \<and> (\<forall>seg\<in>set (py_split 44 header). 61 \<in> set seg)"
  then have ne: "header \<noteq> []" and all: "\<forall>seg\<in>set (py_split 44 header). 61 \<in> set seg"
    by simp_all
  have A: "parse_parts (py_split 44 header) Map.empty
         = Inr (last_value (map segment_pair (py_split 44 header)))"
    using parse_parts_all [OF all, of Map.empty] by (simp only: empty_add)
  have B: "parse_pairs (py_split 44 header) Map.empty
         = Inr (last_value (map stripped_pair (py_split 44 header)))"
    using parse_pairs_all [OF all, of Map.empty] by (simp only: empty_add)
  from ne A B show "parse_parts (py_split 44 header) Map.empty
         = Inr (last_value (map segment_pair (py_split 44 header)))
       \<and> verify_molam_signature env now_ms header payload get_secret tolerance_seconds
         = verify_molam_fields env now_ms (last_value (map segment_pair (py_split 44 header)))
             payload get_secret tolerance_seconds
       \<and> parse_signature_header header
         = Inr (last_value (map stripped_pair (py_split 44 header)))
       \<and> verify_signature env now_ms header payload get_secret tolerance_ms
         = verify_signature_fields env now_ms
             (last_value (map stripped_pair (py_split 44 header)))
             payload get_secret tolerance_ms"
    by (simp add: verify_molam_signature_def verify_signature_def parse_signature_header_def)
qed

theorem duplicate_keys_last_wins_witness:
  "last_value (map segment_pair (py_split 44 (ustr ''t=1,t=2000,v1=73323030302e7b7d'')))
       (ustr ''t'') = Some (ustr ''2000'')
   \<and> verify_molam_signature sample_env 2000 (ustr ''t=1,t=2000,v1=73323030302e7b7d'')
       (ubytes ''{}'') (resolver_for (ustr ''v1'') (ustr ''s'')) 300 = Inr True
   \<and> verify_signature sample_env 2000 (ustr ''t=1,t=2000,v1=73323030302e7b7d,kid=1'')
       (ubytes ''{}'') (resolver_for (ustr ''1'') (ustr ''s'')) 300000 = Inr True"
proof -
  have segs: "py_split 44 (ustr ''t=1,t=2000,v1=73323030302e7b7d'')
      = [ustr ''t=1'', ustr ''t=2000'', ustr ''v1=73323030302e7b7d'']"
    by (simp add: ustr_def py_split.simps)
  have h: "ustr ''t=1,t=2000,v1=73323030302e7b7d'' \<noteq> []
     \<and> (\<forall>seg\<in>set (py_split 44 (ustr ''t=1,t=2000,v1=73323030302e7b7d'')). 61 \<in> set seg)"
    unfolding segs by (simp add: ustr_def)
  note w = duplicate_keys_last_wins [rule_format, OF h, unfolded segs]
  have lA: "last_value (map segment_pair
        [ustr ''t=1'', ustr ''t=2000'', ustr ''v1=73323030302e7b7d'']) (ustr ''t'')
      = Some (ustr ''2000'')"
    by (simp add: ustr_def segment_pair_def)
  have vA: "verify_molam_signature sample_env 2000 (ustr ''t=1,t=2000,v1=73323030302e7b7d'')
       (ubytes ''{}'') (resolver_for (ustr ''v1'') (ustr ''s'')) 300 = Inr True"
    using w [of sample_env 2000 "ubytes ''{}''" "resolver_for (ustr ''v1'') (ustr ''s'')" 300]
    by (simp add: run_defs)
  have vB: "verify_signature sample_env 2000 (ustr ''t=1,t=2000,v1=73323030302e7b7d,kid=1'')
       (ubytes ''{}'') (resolver_for (ustr ''1'') (ustr ''s'')) 300000 = Inr True"
    by (simp add: run_defs)
  from lA vA vB show ?thesis unfolding segs by simp
qed

subsection \<open>A header without a key id\<close>

text \<open>
  Claim C3, as stated, covers all three implementations. In brique-105 a header with
  \<open>t\<close> and \<open>v1\<close> but no \<open>kid\<close> is rejected: \<open>kid\<close> is one of the required fields
  there, and its absence is reported as missing required fields.
\<close>

theorem missing_kid_counterexample:
  "verify_signature sample_env 1000 (ustr ''t=1000,v1=73313030302e7b7d'') (ubytes ''{}'')
      (resolver_for (ustr ''v1'') (ustr ''s'')) 300000
     = Inl (SignatureError (MsgMissingRequiredFields {ustr ''kid''}))
   \<and> failure_reason (verify_signature sample_env 1000 (ustr ''t=1000,v1=73313030302e7b7d'')
      (ubytes ''{}'') (resolver_for (ustr ''v1'') (ustr ''s'')) 300000) = Some MalformedHeader"
  by (auto simp add: run_defs)

text \<open>
  Claim C3, amended. In brique-102, for every header that parses and carries non-empty
  \<open>t\<close> and \<open>v1\<close> but no \<open>kid\<close>, the key id is \<open>v1\<close>: verification is what it would be
  with \<open>kid=v1\<close> in the dictionary, it never ends in a malformed-header failure, the
  resolver is consulted at \<open>v1\<close> only, and with a valid timestamp inside the window and
  no secret for \<open>v1\<close> the failure is the unknown-key one for \<open>v1\<close>. In brique-105, every
  header that parses without \<open>kid\<close> is rejected as missing required fields, \<open>kid\<close>
  among them.
\<close>

theorem missing_kid_default:
  "(header \<noteq> [] \<and> parse_parts (py_split 44 header) Map.empty = Inr parts
      \<and> parts (ustr ''t'') = Some ts \<and> parts (ustr ''v1'') = Some sg \<and> ts \<noteq> [] \<and> sg \<noteq> []
      \<and> parts (ustr ''kid'') = None
    \<longrightarrow> kid_or_default parts = ustr ''v1''
       \<and> verify_molam_signature env now_ms header payload get_secret tolerance_seconds
           = verify_molam_fields env now_ms (parts(ustr ''kid'' \<mapsto> ustr ''v1''))
               payload get_secret tolerance_seconds
       \<and> failure_reason (verify_molam_signature env now_ms header payload get_secret
             tolerance_seconds) \<noteq> Some MalformedHeader
       \<and> (\<forall>get_secret'. get_secret' (ustr ''v1'') = get_secret (ustr ''v1'')
             \<longrightarrow> verify_molam_signature env now_ms header payload get_secret' tolerance_seconds
                 = verify_molam_signature env now_ms header payload get_secret
                     tolerance_seconds)
       \<and> (\<forall>t. py_int env ts = Some t \<and> \<bar>now_ms - t\<bar> \<le> tolerance_seconds * 1000
               \<and> get_secret (ustr ''v1'') = None
             \<longrightarrow> verify_molam_signature env now_ms header payload get_secret tolerance_seconds
                 = Inl (WebhookVerificationError (MsgUnknownKeyID (ustr ''v1'')))))
   \<and> (parse_signature_header header = Inr pairs \<and> pairs (ustr ''kid'') = None
    \<longrightarrow> verify_signature env now_ms header payload get_secret tolerance_ms
           = Inl (SignatureError (MsgMissingRequiredFields
               (Set.filter (\<lambda>f. pairs f = None) {ustr ''t'', ustr ''v1'', ustr ''kid''})))
       \<and> ustr ''kid'' \<in> Set.filter (\<lambda>f. pairs f = None) {ustr ''t'', ustr ''v1'', ustr ''kid''})"
proof (intro conjI impI)
  assume a: "header \<noteq> [] \<and> parse_parts (py_split 44 header) Map.empty = Inr parts
      \<and> parts (ustr ''t'') = Some ts \<and> parts (ustr ''v1'') = Some sg \<and> ts \<noteq> [] \<and> sg \<noteq> []
      \<and> parts (ustr ''kid'') = None"
  have ne: "ustr ''kid'' \<noteq> ustr ''t''" "ustr ''kid'' \<noteq> ustr ''v1''"
    by (simp_all add: ustr_def)
  from a show "kid_or_default parts = ustr ''v1''" by (simp add: kid_or_default_def)
  from a ne show "verify_molam_signature env now_ms header payload get_secret tolerance_seconds
           = verify_molam_fields env now_ms (parts(ustr ''kid'' \<mapsto> ustr ''v1''))
               payload get_secret tolerance_seconds"
    by (simp add: verify_molam_signature_def verify_molam_fields_def Let_def)
  from a show "failure_reason (verify_molam_signature env now_ms header payload get_secret
             tolerance_seconds) \<noteq> Some MalformedHeader"
    by (simp add: verify_molam_signature_def verify_molam_fields_def Let_def compare_digest_def
        split: option.splits sum.splits)
  from a show "\<forall>get_secret'. get_secret' (ustr ''v1'') = get_secret (ustr ''v1'')
             \<longrightarrow> verify_molam_signature env now_ms header payload get_secret' tolerance_seconds
                 = verify_molam_signature env now_ms header payload get_secret
                     tolerance_seconds"
    by (auto simp add: verify_molam_signature_def verify_molam_fields_def Let_def
        split: option.splits)
  from a show "\<forall>t. py_int env ts = Some t \<and> \<bar>now_ms - t\<bar> \<le> tolerance_seconds * 1000
               \<and> get_secret (ustr ''v1'') = None
             \<longrightarrow> verify_molam_signature env now_ms header payload get_secret tolerance_seconds
                 = Inl (WebhookVerificationError (MsgUnknownKeyID (ustr ''v1'')))"
    by (simp add: verify_molam_signature_def verify_molam_fields_def Let_def)
next
  assume b: "parse_signature_header header = Inr pairs \<and> pairs (ustr ''kid'') = None"
  then have "header \<noteq> []" by (auto simp: parse_signature_header_def)
  with b show "verify_signature env now_ms header payload get_secret tolerance_ms
           = Inl (SignatureError (MsgMissingRequiredFields
               (Set.filter (\<lambda>f. pairs f = None) {ustr ''t'', ustr ''v1'', ustr ''kid''})))"
    by (simp add: verify_signature_def verify_signature_fields_def Let_def
        split: option.splits)
  from b show "ustr ''kid'' \<in> Set.filter (\<lambda>f. pairs f = None) {ustr ''t'', ustr ''v1'', ustr ''kid''}"
    by simp
qed

theorem missing_kid_default_witness:
  "verify_molam_signature sample_env 1000 (ustr ''t=1000,v1=73313030302e7b7d'') (ubytes ''{}'')
      (resolver_for (ustr ''v1'') (ustr ''s'')) 300 = Inr True
   \<and> verify_molam_signature sample_env 1000 (ustr ''t=1000,v1=73313030302e7b7d'') (ubytes ''{}'')
      (resolver_for (ustr ''1'') (ustr ''s'')) 300
     = Inl (WebhookVerificationError (MsgUnknownKeyID (ustr ''v1'')))
   \<and> verify_signature sample_env 1000 (ustr ''t=1000,v1=73313030302e7b7d'') (ubytes ''{}'')
      (resolver_for (ustr ''v1'') (ustr ''s'')) 300000
     = Inl (SignatureError (MsgMissingRequiredFields {ustr ''kid''}))"
proof -
  let ?h = "ustr ''t=1000,v1=73313030302e7b7d''"
  let ?parts = "[ustr ''t'' \<mapsto> ustr ''1000'', ustr ''v1'' \<mapsto> ustr ''73313030302e7b7d'']"
  have pA: "parse_parts (py_split 44 ?h) Map.empty = Inr ?parts"
    by (simp add: run_defs)
  have pB: "parse_signature_header ?h = Inr ?parts"
    by (simp add: run_defs)
  have hA: "?h \<noteq> [] \<and> parse_parts (py_split 44 ?h) Map.empty = Inr ?parts
      \<and> ?parts (ustr ''t'') = Some (ustr ''1000'')
      \<and> ?parts (ustr ''v1'') = Some (ustr ''73313030302e7b7d'')
      \<and> ustr ''1000'' \<noteq> [] \<and> ustr ''73313030302e7b7d'' \<noteq> []
      \<and> ?parts (ustr ''kid'') = None"
    using pA by (simp add: ustr_def)
  have hB: "parse_signature_header ?h = Inr ?parts \<and> ?parts (ustr ''kid'') = None"
    using pB by (simp add: ustr_def)
  note w = missing_kid_default [of ?h ?parts "ustr ''1000''" "ustr ''73313030302e7b7d''"
      sample_env 1000 "ubytes ''{}''" _ 300 ?parts 300000]
  have 1: "verify_molam_signature sample_env 1000 ?h (ubytes ''{}'')
      (resolver_for (ustr ''v1'') (ustr ''s'')) 300 = Inr True"
    using w [of "resolver_for (ustr ''v1'') (ustr ''s'')", THEN conjunct1, rule_format, OF hA]
    by (simp add: run_defs)
  have 2: "verify_molam_signature sample_env 1000 ?h (ubytes ''{}'')
      (resolver_for (ustr ''1'') (ustr ''s'')) 300
     = Inl (WebhookVerificationError (MsgUnknownKeyID (ustr ''v1'')))"
    using w [of "resolver_for (ustr ''1'') (ustr ''s'')", THEN conjunct1, rule_format, OF hA]
    by (simp add: run_defs)
  have 3: "verify_signature sample_env 1000 ?h (ubytes ''{}'')
      (resolver_for (ustr ''v1'') (ustr ''s'')) 300000
     = Inl (SignatureError (MsgMissingRequiredFields {ustr ''kid''}))"
    using w [of "resolver_for (ustr ''v1'') (ustr ''s'')", THEN conjunct2, rule_format, OF hB]
    by (auto simp add: ustr_def)
  from 1 2 3 show ?thesis by simp
qed

subsection \<open>The octets that are signed\<close>

text \<open>
  Claim C1, as stated, covers all three implementations and every body. In brique-105
  the body is decoded as UTF-8 before it is signed, so a body that is not valid UTF-8
  ends verification with \<open>UnicodeDecodeError\<close>; in the example handler the timestamp
  is parsed and formatted again, so the header value \<open>007\<close> is signed as \<open>7\<close>: the
  digest of \<open>7.{}\<close> is accepted and the digest of \<open>007.{}\<close> is refused.
\<close>

theorem signed_payload_counterexample:
  "verify_signature sample_env 1000 (ustr ''t=1000,v1=ab,kid=1'') [0xFF]
      (resolver_for (ustr ''1'') (ustr ''s'')) 300000 = Inl UnicodeDecodeError
   \<and> handler_verify_signature sample_env 7 (ubytes ''{}'') (ustr ''t=007,v1=73372e7b7d'')
      (ustr ''s'') = Inr True
   \<and> handler_verify_signature sample_env 7 (ubytes ''{}'') (ustr ''t=007,v1=733030372e7b7d'')
      (ustr ''s'') = Inr False"
  by (simp add: run_defs)

text \<open>
  Claim C1, amended. Whenever verification reaches the comparison of digests:
  in brique-102 the octets signed are the UTF-8 encoding of the \<open>t\<close> value of the parsed
  header, not re-formatted, one period, and the raw body octets, for every body;
  in brique-105 the \<open>t\<close> value is the stripped one of the parsed header and the body is
  decoded and encoded again, which for a body that is valid UTF-8 gives the \<open>t\<close> value,
  one period and the body octets unchanged, and for any other body ends verification
  with \<open>UnicodeDecodeError\<close>; in the example handler the octets signed are the decimal
  text of the parsed integer, one period, and the raw body octets.
\<close>

theorem signed_payload_bytes:
  "(header \<noteq> [] \<and> parse_parts (py_split 44 header) Map.empty = Inr parts
      \<and> parts (ustr ''t'') = Some ts \<and> parts (ustr ''v1'') = Some sg \<and> ts \<noteq> [] \<and> sg \<noteq> []
      \<and> py_int env ts = Some t \<and> \<bar>now_ms - t\<bar> \<le> tolerance_seconds * 1000
      \<and> get_secret (kid_or_default parts) = Some secret \<and> secret \<noteq> []
      \<and> utf8_encode ts = Some tb \<and> utf8_encode secret = Some key
    \<longrightarrow> verify_molam_signature env now_ms header payload get_secret tolerance_seconds
         = (case compare_digest (hexdigest env key (tb @ [46] @ payload)) sg of
              Inl e \<Rightarrow> Inl e
            | Inr ok \<Rightarrow>
                if ok then Inr True else Inl (WebhookVerificationError MsgSignatureMismatch)))
   \<and> (parse_signature_header header = Inr pairs
      \<and> pairs (ustr ''t'') = Some ts' \<and> pairs (ustr ''v1'') = Some sg'
      \<and> pairs (ustr ''kid'') = Some kid \<and> py_int env ts' = Some t'
      \<and> \<bar>now_ms - t'\<bar> \<le> tolerance_ms
      \<and> get_secret' kid = Some secret' \<and> secret' \<noteq> []
    \<longrightarrow> (utf8_decode payload = None
          \<longrightarrow> verify_signature env now_ms header payload get_secret' tolerance_ms
              = Inl UnicodeDecodeError)
       \<and> (utf8_decode payload \<noteq> None
            \<and> utf8_encode ts' = Some tb' \<and> utf8_encode secret' = Some key'
          \<longrightarrow> verify_signature env now_ms header payload get_secret' tolerance_ms
              = (case compare_digest (hexdigest env key' (tb' @ [46] @ payload)) sg' of
                   Inl e \<Rightarrow> Inl e
                 | Inr ok \<Rightarrow>
                     if ok then Inr True else Inl (SignatureError MsgSignatureMismatch))))
   \<and> (parse_parts (py_split 44 header) Map.empty = Inr parts
      \<and> parts (ustr ''t'') = Some ts \<and> parts (ustr ''v1'') = Some sg
      \<and> py_int env ts = Some t \<and> \<bar>now_ms - t\<bar> \<le> 300000
      \<and> utf8_encode secret = Some key
    \<longrightarrow> handler_verify_signature env now_ms payload header secret
         = compare_digest (hexdigest env key (map of_nat (py_str t) @ [46] @ payload)) sg)"
proof (intro conjI impI)
  assume a: "header \<noteq> [] \<and> parse_parts (py_split 44 header) Map.empty = Inr parts
      \<and> parts (ustr ''t'') = Some ts \<and> parts (ustr ''v1'') = Some sg \<and> ts \<noteq> [] \<and> sg \<noteq> []
      \<and> py_int env ts = Some t \<and> \<bar>now_ms - t\<bar> \<le> tolerance_seconds * 1000
      \<and> get_secret (kid_or_default parts) = Some secret \<and> secret \<noteq> []
      \<and> utf8_encode ts = Some tb \<and> utf8_encode secret = Some key"
  then have "utf8_encode (ts @ ustr ''.'') = Some (tb @ [46])"
    by (simp add: utf8_encode_snoc_dot)
  with a show "verify_molam_signature env now_ms header payload get_secret tolerance_seconds
         = (case compare_digest (hexdigest env key (tb @ [46] @ payload)) sg of
              Inl e \<Rightarrow> Inl e
            | Inr ok \<Rightarrow>
                if ok then Inr True else Inl (WebhookVerificationError MsgSignatureMismatch))"
    by (simp add: verify_molam_signature_def verify_molam_fields_def Let_def kid_or_default_def)
next
  assume b: "parse_signature_header header = Inr pairs
      \<and> pairs (ustr ''t'') = Some ts' \<and> pairs (ustr ''v1'') = Some sg'
      \<and> pairs (ustr ''kid'') = Some kid \<and> py_int env ts' = Some t'
      \<and> \<bar>now_ms - t'\<bar> \<le> tolerance_ms
      \<and> get_secret' kid = Some secret' \<and> secret' \<noteq> []"
  then have ne: "header \<noteq> []" by (auto simp: parse_signature_header_def)
  assume "utf8_decode payload = None"
  with b ne show "verify_signature env now_ms header payload get_secret' tolerance_ms
              = Inl UnicodeDecodeError"
    by (simp add: verify_signature_def verify_signature_fields_def Let_def)
next
  assume b: "parse_signature_header header = Inr pairs
      \<and> pairs (ustr ''t'') = Some ts' \<and> pairs (ustr ''v1'') = Some sg'
      \<and> pairs (ustr ''kid'') = Some kid \<and> py_int env ts' = Some t'
      \<and> \<bar>now_ms - t'\<bar> \<le> tolerance_ms
      \<and> get_secret' kid = Some secret' \<and> secret' \<noteq> []"
  then have ne: "header \<noteq> []" by (auto simp: parse_signature_header_def)
  assume c: "utf8_decode payload \<noteq> None
            \<and> utf8_encode ts' = Some tb' \<and> utf8_encode secret' = Some key'"
  then obtain body where d: "utf8_decode payload = Some body" by auto
  with c have "utf8_encode (ts' @ ustr ''.'' @ body) = Some (tb' @ [46] @ payload)"
    by (simp add: utf8_encode_signed)
  with b c d ne show "verify_signature env now_ms header payload get_secret' tolerance_ms
              = (case compare_digest (hexdigest env key' (tb' @ [46] @ payload)) sg' of
                   Inl e \<Rightarrow> Inl e
                 | Inr ok \<Rightarrow>
                     if ok then Inr True else Inl (SignatureError MsgSignatureMismatch))"
    by (simp add: verify_signature_def verify_signature_fields_def Let_def)
next
  assume e: "parse_parts (py_split 44 header) Map.empty = Inr parts
      \<and> parts (ustr ''t'') = Some ts \<and> parts (ustr ''v1'') = Some sg
      \<and> py_int env ts = Some t \<and> \<bar>now_ms - t\<bar> \<le> 300000
      \<and> utf8_encode secret = Some key"
  have "utf8_encode (py_str t) = Some (map of_nat (py_str t))"
    by (rule utf8_encode_ascii) (rule is_ascii_py_str)
  then have "utf8_encode (py_str t @ ustr ''.'') = Some (map of_nat (py_str t) @ [46])"
    by (rule utf8_encode_snoc_dot)
  with e show "handler_verify_signature env now_ms payload header secret
         = compare_digest (hexdigest env key (map of_nat (py_str t) @ [46] @ payload)) sg"
    by (simp add: handler_verify_signature_def)
qed

theorem signed_payload_bytes_witness:
  "verify_molam_signature sample_env 7 (ustr ''t=007,v1=733030372e7b7d'') (ubytes ''{}'')
      (resolver_for (ustr ''v1'') (ustr ''s'')) 300 = Inr True
   \<and> verify_signature sample_env 1000 (ustr ''t=1000,v1=73313030302ec3a9,kid=1'') [0xC3, 0xA9]
      (resolver_for (ustr ''1'') (ustr ''s'')) 300000 = Inr True
   \<and> verify_signature sample_env 1000 (ustr ''t=1000,v1=73313030302ec3a9,kid=1'') [0xFF]
      (resolver_for (ustr ''1'') (ustr ''s'')) 300000 = Inl UnicodeDecodeError
   \<and> handler_verify_signature sample_env 7 (ubytes ''{}'') (ustr ''t=007,v1=73372e7b7d'')
      (ustr ''s'') = Inr True"
proof -
  let ?hA = "ustr ''t=007,v1=733030372e7b7d''"
  let ?pA = "[ustr ''t'' \<mapsto> ustr ''007'', ustr ''v1'' \<mapsto> ustr ''733030372e7b7d'']"
  let ?hB = "ustr ''t=1000,v1=73313030302ec3a9,kid=1''"
  let ?pB = "[ustr ''t'' \<mapsto> ustr ''1000'', ustr ''v1'' \<mapsto> ustr ''73313030302ec3a9'',
              ustr ''kid'' \<mapsto> ustr ''1'']"
  let ?hC = "ustr ''t=007,v1=73372e7b7d''"
  let ?pC = "[ustr ''t'' \<mapsto> ustr ''007'', ustr ''v1'' \<mapsto> ustr ''73372e7b7d'']"
  have A: "?hA \<noteq> [] \<and> parse_parts (py_split 44 ?hA) Map.empty = Inr ?pA
      \<and> ?pA (ustr ''t'') = Some (ustr ''007'') \<and> ?pA (ustr ''v1'') = Some (ustr ''733030372e7b7d'')
      \<and> ustr ''007'' \<noteq> [] \<and> ustr ''733030372e7b7d'' \<noteq> []
      \<and> py_int sample_env (ustr ''007'') = Some 7 \<and> \<bar>7 - 7\<bar> \<le> (300::int) * 1000
      \<and> resolver_for (ustr ''v1'') (ustr ''s'') (kid_or_default ?pA) = Some (ustr ''s'')
      \<and> ustr ''s'' \<noteq> []
      \<and> utf8_encode (ustr ''007'') = Some (ubytes ''007'')
      \<and> utf8_encode (ustr ''s'') = Some (ubytes ''s'')"
    by (simp add: run_defs)
  have B: "parse_signature_header ?hB = Inr ?pB
      \<and> ?pB (ustr ''t'') = Some (ustr ''1000'') \<and> ?pB (ustr ''v1'') = Some (ustr ''73313030302ec3a9'')
      \<and> ?pB (ustr ''kid'') = Some (ustr ''1'') \<and> py_int sample_env (ustr ''1000'') = Some 1000
      \<and> \<bar>1000 - 1000\<bar> \<le> (300000::int)
      \<and> resolver_for (ustr ''1'') (ustr ''s'') (ustr ''1'') = Some (ustr ''s'') \<and> ustr ''s'' \<noteq> []"
    by (simp add: run_defs)
  have B1: "utf8_decode [0xFF] = None"
    by (simp add: utf8_decode.simps)
  have B2: "utf8_decode [0xC3, 0xA9] \<noteq> None
      \<and> utf8_encode (ustr ''1000'') = Some (ubytes ''1000'')
      \<and> utf8_encode (ustr ''s'') = Some (ubytes ''s'')"
    by (simp add: run_defs)
  have C: "parse_parts (py_split 44 ?hC) Map.empty = Inr ?pC
      \<and> ?pC (ustr ''t'') = Some (ustr ''007'') \<and> ?pC (ustr ''v1'') = Some (ustr ''73372e7b7d'')
      \<and> py_int sample_env (ustr ''007'') = Some 7 \<and> \<bar>7 - 7\<bar> \<le> (300000::int)
      \<and> utf8_encode (ustr ''s'') = Some (ubytes ''s'')"
    by (simp add: run_defs)
  have 1: "verify_molam_signature sample_env 7 ?hA (ubytes ''{}'')
      (resolver_for (ustr ''v1'') (ustr ''s'')) 300 = Inr True"
    using signed_payload_bytes [where header = ?hA and parts = ?pA and ts = "ustr ''007''"
        and sg = "ustr ''733030372e7b7d''" and env = sample_env and t = 7 and now_ms = 7
        and tolerance_seconds = 300 and get_secret = "resolver_for (ustr ''v1'') (ustr ''s'')"
        and secret = "ustr ''s''" and tb = "ubytes ''007''" and key = "ubytes ''s''"
        and payload = "ubytes ''{}''", THEN conjunct1] A
    by (simp add: run_defs)
  have 2: "verify_signature sample_env 1000 ?hB [0xC3, 0xA9]
      (resolver_for (ustr ''1'') (ustr ''s'')) 300000 = Inr True"
    using signed_payload_bytes [where header = ?hB and pairs = ?pB and ts' = "ustr ''1000''"
        and sg' = "ustr ''73313030302ec3a9''" and env = sample_env and t' = 1000
        and now_ms = 1000 and tolerance_ms = 300000 and kid = "ustr ''1''"
        and get_secret' = "resolver_for (ustr ''1'') (ustr ''s'')"
        and secret' = "ustr ''s''" and tb' = "ubytes ''1000''" and key' = "ubytes ''s''"
        and payload = "[0xC3, 0xA9]", THEN conjunct2, THEN conjunct1] B B2
    by (simp add: run_defs)
  have 3: "verify_signature sample_env 1000 ?hB [0xFF]
      (resolver_for (ustr ''1'') (ustr ''s'')) 300000 = Inl UnicodeDecodeError"
    using signed_payload_bytes [where header = ?hB and pairs = ?pB and ts' = "ustr ''1000''"
        and sg' = "ustr ''73313030302ec3a9''" and env = sample_env and t' = 1000
        and now_ms = 1000 and tolerance_ms = 300000 and kid = "ustr ''1''"
        and get_secret' = "resolver_for (ustr ''1'') (ustr ''s'')"
        and secret' = "ustr ''s''" and payload = "[0xFF]", THEN conjunct2, THEN conjunct1] B B1
    by simp
  have 4: "handler_verify_signature sample_env 7 (ubytes ''{}'') ?hC (ustr ''s'') = Inr True"
    using signed_payload_bytes [where header = ?hC and parts = ?pC and ts = "ustr ''007''"
        and sg = "ustr ''73372e7b7d''" and env = sample_env and t = 7 and now_ms = 7
        and secret = "ustr ''s''" and key = "ubytes ''s''" and payload = "ubytes ''{}''",
        THEN conjunct2, THEN conjunct2] C
    by (simp add: run_defs)
  from 1 2 3 4 show ?thesis by simp
qed

subsection \<open>How a failure is reported\<close>

text \<open>
  Claim C7, as stated, covers the example handler. Its \<open>verify_signature\<close> returns the
  bare boolean \<open>False\<close> for a digest that does not match, and the same \<open>False\<close> for a
  header without \<open>=\<close> and for a timestamp outside the window: the return value carries
  no reason.
\<close>

theorem bare_false_counterexample:
  "handler_verify_signature sample_env 1000 (ubytes ''{}'') (ustr ''t=1000,v1=ab'') (ustr ''s'')
     = Inr False
   \<and> handler_verify_signature sample_env 1000 (ubytes ''{}'') (ustr ''invalid_format'')
       (ustr ''s'') = Inr False
   \<and> handler_verify_signature sample_env 1000 (ubytes ''{}'') (ustr ''t=900000,v1=ab'')
       (ustr ''s'') = Inr False
   \<and> failure_reason (handler_verify_signature sample_env 1000 (ubytes ''{}'')
       (ustr ''t=1000,v1=ab'') (ustr ''s'')) = None"
  by (simp add: run_defs)

text \<open>
  Claim C7, amended. \<open>verify_molam_signature\<close> never returns \<open>False\<close>: it returns
  \<open>True\<close> or raises. What it raises is a \<open>WebhookVerificationError\<close> whose message falls
  under one of the five kinds (malformed header, invalid timestamp, timestamp out of
  tolerance, unknown key id, signature mismatch), or else a \<open>TypeError\<close> or
  \<open>UnicodeEncodeError\<close> of the standard library; for an ASCII header and a resolver whose
  secrets can be encoded, every failure carries one of the five kinds. The example
  handler's \<open>verify_signature\<close>, whose return type is \<open>bool\<close>, reports a digest that does
  not match by returning \<open>False\<close>.
\<close>

theorem failure_carries_reason:
  "verify_molam_signature env now_ms header payload get_secret tolerance_seconds \<noteq> Inr False
   \<and> (verify_molam_signature env now_ms header payload get_secret tolerance_seconds = Inl e
      \<longrightarrow> e = TypeError \<or> e = UnicodeEncodeError
          \<or> (\<exists>m. e = WebhookVerificationError m
                \<and> reason_of_message m \<in> {MalformedHeader, InvalidTimestamp,
                     TimestampOutOfTolerance, UnknownKeyId, SignatureMismatch}))
   \<and> (is_ascii header \<and> (\<forall>k s. get_secret k = Some s \<longrightarrow> utf8_encode s \<noteq> None)
      \<longrightarrow> verify_molam_signature env now_ms header payload get_secret tolerance_seconds
            = Inr True
          \<or> failure_reason (verify_molam_signature env now_ms header payload get_secret
               tolerance_seconds)
             \<in> {Some MalformedHeader, Some InvalidTimestamp, Some TimestampOutOfTolerance,
                 Some UnknownKeyId, Some SignatureMismatch})
   \<and> (parse_parts (py_split 44 header) Map.empty = Inr parts
      \<and> parts (ustr ''t'') = Some ts \<and> parts (ustr ''v1'') = Some sg
      \<and> py_int env ts = Some t \<and> \<bar>now_ms - t\<bar> \<le> 300000
      \<and> utf8_encode secret = Some key \<and> is_ascii sg
      \<and> hexdigest env key (map of_nat (py_str t) @ [46] @ payload) \<noteq> sg
      \<longrightarrow> handler_verify_signature env now_ms payload header secret = Inr False)"
proof (intro conjI impI)
  show "verify_molam_signature env now_ms header payload get_secret tolerance_seconds
      \<noteq> Inr False"
    by (simp add: verify_molam_signature_def verify_molam_fields_def Let_def
        split: option.splits sum.splits prod.splits)
next
  assume "verify_molam_signature env now_ms header payload get_secret tolerance_seconds = Inl e"
  then show "e = TypeError \<or> e = UnicodeEncodeError
          \<or> (\<exists>m. e = WebhookVerificationError m
                \<and> reason_of_message m \<in> {MalformedHeader, InvalidTimestamp,
                     TimestampOutOfTolerance, UnknownKeyId, SignatureMismatch})"
    by (auto simp add: verify_molam_signature_def verify_molam_fields_def Let_def
        compare_digest_def split: option.splits sum.splits prod.splits if_splits)
next
  assume a: "is_ascii header \<and> (\<forall>k s. get_secret k = Some s \<longrightarrow> utf8_encode s \<noteq> None)"
  let ?r = "verify_molam_signature env now_ms header payload get_secret tolerance_seconds"
  let ?R = "{Some MalformedHeader, Some InvalidTimestamp, Some TimestampOutOfTolerance,
                 Some UnknownKeyId, Some SignatureMismatch}"
  show "?r = Inr True \<or> failure_reason ?r \<in> ?R"
  proof (cases "header = []")
    case True
    then show ?thesis by (simp add: verify_molam_signature_def)
  next
    case False
    show ?thesis
    proof (cases "parse_parts (py_split 44 header) Map.empty")
      case (Inl x)
      with False show ?thesis by (simp add: verify_molam_signature_def)
    next
      case (Inr parts)
      have asc: "\<And>k v. parts k = Some v \<Longrightarrow> is_ascii v"
        using a Inr by (blast intro: parsed_values_ascii)
      have r: "?r = verify_molam_fields env now_ms parts payload get_secret tolerance_seconds"
        using False Inr by (simp add: verify_molam_signature_def)
      show ?thesis
      proof (cases "parts (ustr ''t'')")
        case None
        then show ?thesis unfolding r by (simp add: verify_molam_fields_def)
      next
        case ts: (Some ts)
        show ?thesis
        proof (cases "parts (ustr ''v1'')")
          case None
          with ts show ?thesis unfolding r by (simp add: verify_molam_fields_def)
        next
          case sg: (Some sg)
          have "utf8_encode ts = Some (map of_nat ts)"
            by (intro utf8_encode_ascii asc) (rule ts)
          then have e1: "utf8_encode (ts @ ustr ''.'') = Some (map of_nat ts @ [46])"
            by (rule utf8_encode_snoc_dot)
          have e2: "is_ascii sg" by (rule asc) (rule sg)
          show ?thesis
          proof (cases "get_secret (kid_or_default parts)")
            case None
            with ts sg show ?thesis unfolding r
              by (simp add: verify_molam_fields_def Let_def kid_or_default_def
                  split: option.splits)
          next
            case (Some secret)
            with a obtain key where e3: "utf8_encode secret = Some key" by blast
            from ts sg Some e1 e2 e3 show ?thesis unfolding r
              by (simp add: verify_molam_fields_def Let_def kid_or_default_def
                  compare_digest_ascii split: option.splits)
          qed
        qed
      qed
    qed
  qed
next
  assume h: "parse_parts (py_split 44 header) Map.empty = Inr parts
      \<and> parts (ustr ''t'') = Some ts \<and> parts (ustr ''v1'') = Some sg
      \<and> py_int env ts = Some t \<and> \<bar>now_ms - t\<bar> \<le> 300000
      \<and> utf8_encode secret = Some key \<and> is_ascii sg
      \<and> hexdigest env key (map of_nat (py_str t) @ [46] @ payload) \<noteq> sg"
  have "utf8_encode (py_str t) = Some (map of_nat (py_str t))"
    by (rule utf8_encode_ascii) (rule is_ascii_py_str)
  then have "utf8_encode (py_str t @ ustr ''.'') = Some (map of_nat (py_str t) @ [46])"
    by (rule utf8_encode_snoc_dot)
  with h show "handler_verify_signature env now_ms payload header secret = Inr False"
    by (simp add: handler_verify_signature_def compare_digest_ascii)
qed

theorem failure_carries_reason_witness:
  "verify_molam_signature sample_env 1000 (ustr ''invalid_format'') (ubytes ''{}'')
      (resolver_for (ustr ''v1'') (ustr ''s'')) 300
     = Inl (WebhookVerificationError MsgInvalidHeaderFormat)
   \<and> failure_reason (verify_molam_signature sample_env 1000 (ustr ''t=1000,v1=ab'')
      (ubytes ''{}'') (resolver_for (ustr ''v1'') (ustr ''s'')) 300) = Some SignatureMismatch
   \<and> verify_molam_signature sample_env 1000 (ustr ''t=1000,v1='' @ [233]) (ubytes ''{}'')
      (resolver_for (ustr ''v1'') (ustr ''s'')) 300 = Inl TypeError
   \<and> handler_verify_signature sample_env 1000 (ubytes ''{}'') (ustr ''t=1000,v1=ab'')
      (ustr ''s'') = Inr False"
proof -
  let ?g = "resolver_for (ustr ''v1'') (ustr ''s'')"
  let ?h = "ustr ''t=1000,v1=ab''"
  let ?p = "[ustr ''t'' \<mapsto> ustr ''1000'', ustr ''v1'' \<mapsto> ustr ''ab'']"
  have 1: "verify_molam_signature sample_env 1000 (ustr ''invalid_format'') (ubytes ''{}'') ?g 300
     = Inl (WebhookVerificationError MsgInvalidHeaderFormat)"
    by (simp add: run_defs)
  have g: "is_ascii ?h \<and> (\<forall>k s. ?g k = Some s \<longrightarrow> utf8_encode s \<noteq> None)"
    by (simp add: run_defs)
  have "verify_molam_signature sample_env 1000 ?h (ubytes ''{}'') ?g 300 = Inr True
      \<or> failure_reason (verify_molam_signature sample_env 1000 ?h (ubytes ''{}'') ?g 300)
         \<in> {Some MalformedHeader, Some InvalidTimestamp, Some TimestampOutOfTolerance,
             Some UnknownKeyId, Some SignatureMismatch}"
    using failure_carries_reason [where env = sample_env and now_ms = 1000 and header = ?h
        and payload = "ubytes ''{}''" and get_secret = ?g and tolerance_seconds = 300,
        THEN conjunct2, THEN conjunct2, THEN conjunct1] g
    by blast
  then have 2: "failure_reason (verify_molam_signature sample_env 1000 ?h (ubytes ''{}'') ?g 300)
      = Some SignatureMismatch"
    by (simp add: run_defs)
  have 3: "verify_molam_signature sample_env 1000 (ustr ''t=1000,v1='' @ [233]) (ubytes ''{}'')
      ?g 300 = Inl TypeError"
    by (simp add: run_defs)
  have c: "parse_parts (py_split 44 ?h) Map.empty = Inr ?p
      \<and> ?p (ustr ''t'') = Some (ustr ''1000'') \<and> ?p (ustr ''v1'') = Some (ustr ''ab'')
      \<and> py_int sample_env (ustr ''1000'') = Some 1000 \<and> \<bar>1000 - 1000\<bar> \<le> (300000::int)
      \<and> utf8_encode (ustr ''s'') = Some (ubytes ''s'') \<and> is_ascii (ustr ''ab'')
      \<and> hexdigest sample_env (ubytes ''s'') (map of_nat (py_str 1000) @ [46] @ ubytes ''{}'')
          \<noteq> ustr ''ab''"
    by (simp add: run_defs)
  have 4: "handler_verify_signature sample_env 1000 (ubytes ''{}'') ?h (ustr ''s'') = Inr False"
    using failure_carries_reason [where env = sample_env and now_ms = 1000 and header = ?h
        and payload = "ubytes ''{}''" and parts = ?p and ts = "ustr ''1000''"
        and sg = "ustr ''ab''" and t = 1000 and secret = "ustr ''s''" and key = "ubytes ''s''",
        THEN conjunct2, THEN conjunct2, THEN conjunct2] c
    by blast
  from 1 2 3 4 show ?thesis by simp
qed

subsection \<open>Signing and then verifying\<close>

text \<open>
  Claim C5, as stated, is for any secret and any body. With the empty secret the header
  is generated, but verification treats an empty secret as none and fails with the
  secret-not-found message; and for a body that is not valid UTF-8 no header is generated
  at all, \<open>generate_signature\<close> raises \<open>UnicodeDecodeError\<close>.
\<close>

theorem round_trip_counterexample:
  "generate_signature sample_env 1000 (ubytes ''{}'') [] (Some 1000) (ustr ''1'')
     = Inr (ustr ''t=1000,v1=313030302e7b7d,kid=1'')
   \<and> verify_signature sample_env 1000 (ustr ''t=1000,v1=313030302e7b7d,kid=1'') (ubytes ''{}'')
       (resolver_for (ustr ''1'') []) 300000
     = Inl (SignatureError (MsgSecretNotFound (ustr ''1'')))
   \<and> generate_signature sample_env 1000 [0xFF] (ustr ''s'') (Some 1000) (ustr ''1'')
     = Inl UnicodeDecodeError"
  by (simp add: run_defs)

text \<open>
  Claim C5, amended. For every non-empty secret, every timestamp (given, or the clock
  when none is given) and every body, if \<open>generate_signature\<close> with its default key id
  \<open>1\<close> returns a header, then verifying that header against the same body, with a
  resolver that returns the secret for \<open>1\<close> and a clock within the tolerance of the
  timestamp, returns \<open>True\<close>. A header is returned exactly when the body is valid UTF-8
  and the secret can be encoded as UTF-8.
\<close>

theorem round_trip:
  "(generate_signature env now_gen payload secret timestamp_ms (ustr ''1'') = Inr header
      \<and> secret \<noteq> [] \<and> get_secret (ustr ''1'') = Some secret
      \<and> \<bar>now_ms - (case timestamp_ms of None \<Rightarrow> now_gen | Some t \<Rightarrow> t)\<bar> \<le> tolerance_ms
    \<longrightarrow> verify_signature env now_ms header payload get_secret tolerance_ms = Inr True)
   \<and> ((\<exists>h. generate_signature env now_gen payload secret timestamp_ms (ustr ''1'') = Inr h)
        \<longleftrightarrow> utf8_decode payload \<noteq> None \<and> utf8_encode secret \<noteq> None)"
proof (intro conjI impI)
  assume a: "generate_signature env now_gen payload secret timestamp_ms (ustr ''1'') = Inr header
      \<and> secret \<noteq> [] \<and> get_secret (ustr ''1'') = Some secret
      \<and> \<bar>now_ms - (case timestamp_ms of None \<Rightarrow> now_gen | Some t \<Rightarrow> t)\<bar> \<le> tolerance_ms"
  have k: "44 \<notin> set (ustr ''1'')" "py_strip (ustr ''1'') = ustr ''1''"
    by (simp_all add: ustr_def py_strip_def py_isspace_def)
  from a have g: "generate_signature env now_gen payload secret timestamp_ms (ustr ''1'')
      = Inr header"
    and s: "secret \<noteq> []" and r: "get_secret (ustr ''1'') = Some secret"
    and t: "\<bar>now_ms - (case timestamp_ms of None \<Rightarrow> now_gen | Some t \<Rightarrow> t)\<bar> \<le> tolerance_ms"
    by simp_all
  show "verify_signature env now_ms header payload get_secret tolerance_ms = Inr True"
    using g s k r t by (rule generate_verify)
next
  show "(\<exists>h. generate_signature env now_gen payload secret timestamp_ms (ustr ''1'') = Inr h)
        \<longleftrightarrow> utf8_decode payload \<noteq> None \<and> utf8_encode secret \<noteq> None"
    by (rule generate_signature_succeeds)
qed

theorem round_trip_witness:
  "generate_signature sample_env 5 (ubytes ''{}'') (ustr ''s'') (Some 1000) (ustr ''1'')
     = Inr (ustr ''t=1000,v1=73313030302e7b7d,kid=1'')
   \<and> verify_signature sample_env 301000 (ustr ''t=1000,v1=73313030302e7b7d,kid=1'')
       (ubytes ''{}'') (resolver_for (ustr ''1'') (ustr ''s'')) 300000 = Inr True"
proof -
  have g: "generate_signature sample_env 5 (ubytes ''{}'') (ustr ''s'') (Some 1000) (ustr ''1'')
     = Inr (ustr ''t=1000,v1=73313030302e7b7d,kid=1'')"
    by (simp add: run_defs)
  have h: "generate_signature sample_env 5 (ubytes ''{}'') (ustr ''s'') (Some 1000) (ustr ''1'')
        = Inr (ustr ''t=1000,v1=73313030302e7b7d,kid=1'')
      \<and> ustr ''s'' \<noteq> [] \<and> resolver_for (ustr ''1'') (ustr ''s'') (ustr ''1'') = Some (ustr ''s'')
      \<and> \<bar>301000 - (case Some 1000 of None \<Rightarrow> 5 | Some t \<Rightarrow> t)\<bar> \<le> (300000::int)"
    using g by (simp add: ustr_def resolver_for_def)
  have "verify_signature sample_env 301000 (ustr ''t=1000,v1=73313030302e7b7d,kid=1'')
       (ubytes ''{}'') (resolver_for (ustr ''1'') (ustr ''s'')) 300000 = Inr True"
    using round_trip [where env = sample_env and now_gen = 5 and payload = "ubytes ''{}''"
        and secret = "ustr ''s''" and timestamp_ms = "Some 1000"
        and header = "ustr ''t=1000,v1=73313030302e7b7d,kid=1''"
        and get_secret = "resolver_for (ustr ''1'') (ustr ''s'')" and now_ms = 301000
        and tolerance_ms = 300000, THEN conjunct1] h
    by blast
  with g show ?thesis by simp
qed

subsection \<open>Key rotation and unknown key ids\<close>

text \<open>
  Claim C4, as stated, is for any two different secrets. When one of the two is the empty
  string, the signature generated with it under its key id does not verify: the resolver
  returns the empty secret, which verification treats as no secret.
\<close>

theorem key_rotation_counterexample:
  "([] :: str) \<noteq> ustr ''s'' \<and> ustr ''1'' \<noteq> ustr ''2''
   \<and> resolver_two (ustr ''1'') [] (ustr ''2'') (ustr ''s'') (ustr ''1'') = Some []
   \<and> resolver_two (ustr ''1'') [] (ustr ''2'') (ustr ''s'') (ustr ''2'') = Some (ustr ''s'')
   \<and> generate_signature sample_env 1000 (ubytes ''{}'') [] (Some 1000) (ustr ''1'')
     = Inr (ustr ''t=1000,v1=313030302e7b7d,kid=1'')
   \<and> verify_signature sample_env 1000 (ustr ''t=1000,v1=313030302e7b7d,kid=1'') (ubytes ''{}'')
       (resolver_two (ustr ''1'') [] (ustr ''2'') (ustr ''s'')) 300000
     = Inl (SignatureError (MsgSecretNotFound (ustr ''1'')))"
  by (simp add: run_defs)

text \<open>
  Claim C4, amended. Take two non-empty secrets registered under two key ids that
  contain no comma (and, for brique-105, no surrounding whitespace), and a resolver
  that maps each key id to its own secret. In brique-105, the headers that
  \<open>generate_signature\<close> returns for the two both verify as valid within the tolerance.
  In brique-102, which has no signer, the headers built the way its tests build them
  both verify as valid too, given that a digest is never empty. And in both, for every
  header that parses, has its required fields and an integer timestamp within the
  tolerance, and whose key id the resolver maps to nothing, verification fails with the
  unknown-key kind whatever the digest function is, so never with a signature mismatch.
\<close>

theorem key_rotation:
  "(generate_signature env now_gen payload secret_a timestamp_ms kid_a = Inr header_a
      \<and> generate_signature env now_gen payload secret_b timestamp_ms kid_b = Inr header_b
      \<and> secret_a \<noteq> [] \<and> secret_b \<noteq> []
      \<and> 44 \<notin> set kid_a \<and> py_strip kid_a = kid_a \<and> 44 \<notin> set kid_b \<and> py_strip kid_b = kid_b
      \<and> get_secret kid_a = Some secret_a \<and> get_secret kid_b = Some secret_b
      \<and> \<bar>now_ms - (case timestamp_ms of None \<Rightarrow> now_gen | Some t \<Rightarrow> t)\<bar> \<le> tolerance_ms
    \<longrightarrow> verify_signature env now_ms header_a payload get_secret tolerance_ms = Inr True
       \<and> verify_signature env now_ms header_b payload get_secret tolerance_ms = Inr True)
   \<and> (build_test_header env secret_a ts payload kid_a = Inr header_a
      \<and> build_test_header env secret_b ts payload kid_b = Inr header_b
      \<and> (\<forall>k m. hmac_sha256 env k m \<noteq> [])
      \<and> secret_a \<noteq> [] \<and> secret_b \<noteq> [] \<and> 44 \<notin> set kid_a \<and> 44 \<notin> set kid_b
      \<and> get_secret kid_a = Some secret_a \<and> get_secret kid_b = Some secret_b
      \<and> \<bar>now_ms - ts\<bar> \<le> tolerance_seconds * 1000
    \<longrightarrow> verify_molam_signature env now_ms header_a payload get_secret tolerance_seconds
           = Inr True
       \<and> verify_molam_signature env now_ms header_b payload get_secret tolerance_seconds
           = Inr True)
   \<and> (header \<noteq> [] \<and> parse_parts (py_split 44 header) Map.empty = Inr parts
      \<and> parts (ustr ''t'') = Some tsA \<and> parts (ustr ''v1'') = Some sgA
      \<and> tsA \<noteq> [] \<and> sgA \<noteq> [] \<and> py_int env tsA = Some tA
      \<and> \<bar>now_ms - tA\<bar> \<le> tolerance_seconds * 1000
      \<and> get_secret (kid_or_default parts) = None
    \<longrightarrow> (\<forall>digest. verify_molam_signature (env\<lparr>hmac_sha256 := digest\<rparr>) now_ms header
                      payload get_secret tolerance_seconds
                    = Inl (WebhookVerificationError (MsgUnknownKeyID (kid_or_default parts))))
       \<and> failure_reason (verify_molam_signature env now_ms header payload get_secret
             tolerance_seconds) = Some UnknownKeyId)
   \<and> (parse_signature_header header = Inr pairs
      \<and> pairs (ustr ''t'') = Some tsB \<and> pairs (ustr ''v1'') = Some sgB
      \<and> pairs (ustr ''kid'') = Some kid \<and> py_int env tsB = Some tB
      \<and> \<bar>now_ms - tB\<bar> \<le> tolerance_ms
      \<and> get_secret kid = None
    \<longrightarrow> (\<forall>digest. verify_signature (env\<lparr>hmac_sha256 := digest\<rparr>) now_ms header payload
                      get_secret tolerance_ms
                    = Inl (SignatureError (MsgSecretNotFound kid)))
       \<and> failure_reason (verify_signature env now_ms header payload get_secret tolerance_ms)
           = Some UnknownKeyId)"
proof (intro conjI impI allI)
  assume a: "generate_signature env now_gen payload secret_a timestamp_ms kid_a = Inr header_a
      \<and> generate_signature env now_gen payload secret_b timestamp_ms kid_b = Inr header_b
      \<and> secret_a \<noteq> [] \<and> secret_b \<noteq> []
      \<and> 44 \<notin> set kid_a \<and> py_strip kid_a = kid_a \<and> 44 \<notin> set kid_b \<and> py_strip kid_b = kid_b
      \<and> get_secret kid_a = Some secret_a \<and> get_secret kid_b = Some secret_b
      \<and> \<bar>now_ms - (case timestamp_ms of None \<Rightarrow> now_gen | Some t \<Rightarrow> t)\<bar> \<le> tolerance_ms"
  then show "verify_signature env now_ms header_a payload get_secret tolerance_ms = Inr True"
    by (intro generate_verify [where kid = kid_a and secret = secret_a and now_gen = now_gen
          and timestamp_ms = timestamp_ms]) simp_all
  from a show "verify_signature env now_ms header_b payload get_secret tolerance_ms = Inr True"
    by (intro generate_verify [where kid = kid_b and secret = secret_b and now_gen = now_gen
          and timestamp_ms = timestamp_ms]) simp_all
next
  assume b: "build_test_header env secret_a ts payload kid_a = Inr header_a
      \<and> build_test_header env secret_b ts payload kid_b = Inr header_b
      \<and> (\<forall>k m. hmac_sha256 env k m \<noteq> [])
      \<and> secret_a \<noteq> [] \<and> secret_b \<noteq> [] \<and> 44 \<notin> set kid_a \<and> 44 \<notin> set kid_b
      \<and> get_secret kid_a = Some secret_a \<and> get_secret kid_b = Some secret_b
      \<and> \<bar>now_ms - ts\<bar> \<le> tolerance_seconds * 1000"
  then show "verify_molam_signature env now_ms header_a payload get_secret tolerance_seconds
           = Inr True"
    by (intro build_verify [where kid = kid_a and secret = secret_a and ts = ts]) simp_all
  from b show "verify_molam_signature env now_ms header_b payload get_secret tolerance_seconds
           = Inr True"
    by (intro build_verify [where kid = kid_b and secret = secret_b and ts = ts]) simp_all
next
  fix digest
  assume c: "header \<noteq> [] \<and> parse_parts (py_split 44 header) Map.empty = Inr parts
      \<and> parts (ustr ''t'') = Some tsA \<and> parts (ustr ''v1'') = Some sgA
      \<and> tsA \<noteq> [] \<and> sgA \<noteq> [] \<and> py_int env tsA = Some tA
      \<and> \<bar>now_ms - tA\<bar> \<le> tolerance_seconds * 1000
      \<and> get_secret (kid_or_default parts) = None"
  then show "verify_molam_signature (env\<lparr>hmac_sha256 := digest\<rparr>) now_ms header
                      payload get_secret tolerance_seconds
                    = Inl (WebhookVerificationError (MsgUnknownKeyID (kid_or_default parts)))"
    by (simp add: verify_molam_signature_def verify_molam_fields_def Let_def
        kid_or_default_def py_int_hmac_update)
next
  assume c: "header \<noteq> [] \<and> parse_parts (py_split 44 header) Map.empty = Inr parts
      \<and> parts (ustr ''t'') = Some tsA \<and> parts (ustr ''v1'') = Some sgA
      \<and> tsA \<noteq> [] \<and> sgA \<noteq> [] \<and> py_int env tsA = Some tA
      \<and> \<bar>now_ms - tA\<bar> \<le> tolerance_seconds * 1000
      \<and> get_secret (kid_or_default parts) = None"
  then show "failure_reason (verify_molam_signature env now_ms header payload get_secret
             tolerance_seconds) = Some UnknownKeyId"
    by (simp add: verify_molam_signature_def verify_molam_fields_def Let_def
        kid_or_default_def)
next
  fix digest
  assume d: "parse_signature_header header = Inr pairs
      \<and> pairs (ustr ''t'') = Some tsB \<and> pairs (ustr ''v1'') = Some sgB
      \<and> pairs (ustr ''kid'') = Some kid \<and> py_int env tsB = Some tB
      \<and> \<bar>now_ms - tB\<bar> \<le> tolerance_ms
      \<and> get_secret kid = None"
  then have "header \<noteq> []" by (auto simp: parse_signature_header_def)
  with d show "verify_signature (env\<lparr>hmac_sha256 := digest\<rparr>) now_ms header payload
                      get_secret tolerance_ms
                    = Inl (SignatureError (MsgSecretNotFound kid))"
    by (simp add: verify_signature_def verify_signature_fields_def Let_def py_int_hmac_update)
next
  assume d: "parse_signature_header header = Inr pairs
      \<and> pairs (ustr ''t'') = Some tsB \<and> pairs (ustr ''v1'') = Some sgB
      \<and> pairs (ustr ''kid'') = Some kid \<and> py_int env tsB = Some tB
      \<and> \<bar>now_ms - tB\<bar> \<le> tolerance_ms
      \<and> get_secret kid = None"
  then have "header \<noteq> []" by (auto simp: parse_signature_header_def)
  with d show "failure_reason (verify_signature env now_ms header payload get_secret tolerance_ms)
           = Some UnknownKeyId"
    by (simp add: verify_signature_def verify_signature_fields_def Let_def)
qed

theorem key_rotation_witness:
  "verify_signature tagged_env 1000 (ustr ''t=1000,v1=0061313030302e7b7d,kid=1'') (ubytes ''{}'')
      (resolver_two (ustr ''1'') (ustr ''a'') (ustr ''2'') (ustr ''b'')) 300000 = Inr True
   \<and> verify_signature tagged_env 1000 (ustr ''t=1000,v1=0062313030302e7b7d,kid=2'')
      (ubytes ''{}'') (resolver_two (ustr ''1'') (ustr ''a'') (ustr ''2'') (ustr ''b'')) 300000
     = Inr True
   \<and> verify_molam_signature tagged_env 1000 (ustr ''t=1000,v1=0061313030302e7b7d,kid=1'')
      (ubytes ''{}'') (resolver_two (ustr ''1'') (ustr ''a'') (ustr ''2'') (ustr ''b'')) 300
     = Inr True
   \<and> verify_molam_signature tagged_env 1000 (ustr ''t=1000,v1=0062313030302e7b7d,kid=2'')
      (ubytes ''{}'') (resolver_two (ustr ''1'') (ustr ''a'') (ustr ''2'') (ustr ''b'')) 300
     = Inr True
   \<and> verify_molam_signature tagged_env 1000 (ustr ''t=1000,v1=ab,kid=3'') (ubytes ''{}'')
      (resolver_two (ustr ''1'') (ustr ''a'') (ustr ''2'') (ustr ''b'')) 300
     = Inl (WebhookVerificationError (MsgUnknownKeyID (ustr ''3'')))
   \<and> verify_signature tagged_env 1000 (ustr ''t=1000,v1=ab,kid=3'') (ubytes ''{}'')
      (resolver_two (ustr ''1'') (ustr ''a'') (ustr ''2'') (ustr ''b'')) 300000
     = Inl (SignatureError (MsgSecretNotFound (ustr ''3'')))"
proof -
  let ?g = "resolver_two (ustr ''1'') (ustr ''a'') (ustr ''2'') (ustr ''b'')"
  let ?h1 = "ustr ''t=1000,v1=0061313030302e7b7d,kid=1''"
  let ?h2 = "ustr ''t=1000,v1=0062313030302e7b7d,kid=2''"
  let ?h3 = "ustr ''t=1000,v1=ab,kid=3''"
  let ?p3 = "[ustr ''t'' \<mapsto> ustr ''1000'', ustr ''v1'' \<mapsto> ustr ''ab'', ustr ''kid'' \<mapsto> ustr ''3'']"
  have B: "generate_signature tagged_env 5 (ubytes ''{}'') (ustr ''a'') (Some 1000) (ustr ''1'')
        = Inr ?h1
      \<and> generate_signature tagged_env 5 (ubytes ''{}'') (ustr ''b'') (Some 1000) (ustr ''2'')
        = Inr ?h2
      \<and> ustr ''a'' \<noteq> [] \<and> ustr ''b'' \<noteq> []
      \<and> 44 \<notin> set (ustr ''1'') \<and> py_strip (ustr ''1'') = ustr ''1''
      \<and> 44 \<notin> set (ustr ''2'') \<and> py_strip (ustr ''2'') = ustr ''2''
      \<and> ?g (ustr ''1'') = Some (ustr ''a'') \<and> ?g (ustr ''2'') = Some (ustr ''b'')
      \<and> \<bar>1000 - (case Some 1000 of None \<Rightarrow> 5 | Some t \<Rightarrow> t)\<bar> \<le> (300000::int)"
    by (simp add: run_defs)
  have A: "build_test_header tagged_env (ustr ''a'') 1000 (ubytes ''{}'') (ustr ''1'') = Inr ?h1
      \<and> build_test_header tagged_env (ustr ''b'') 1000 (ubytes ''{}'') (ustr ''2'') = Inr ?h2
      \<and> (\<forall>k m. hmac_sha256 tagged_env k m \<noteq> [])
      \<and> ustr ''a'' \<noteq> [] \<and> ustr ''b'' \<noteq> []
      \<and> 44 \<notin> set (ustr ''1'') \<and> 44 \<notin> set (ustr ''2'')
      \<and> ?g (ustr ''1'') = Some (ustr ''a'') \<and> ?g (ustr ''2'') = Some (ustr ''b'')
      \<and> \<bar>1000 - 1000\<bar> \<le> (300::int) * 1000"
    by (simp add: run_defs)
  have U: "?h3 \<noteq> [] \<and> parse_parts (py_split 44 ?h3) Map.empty = Inr ?p3
      \<and> ?p3 (ustr ''t'') = Some (ustr ''1000'') \<and> ?p3 (ustr ''v1'') = Some (ustr ''ab'')
      \<and> ustr ''1000'' \<noteq> [] \<and> ustr ''ab'' \<noteq> []
      \<and> py_int tagged_env (ustr ''1000'') = Some 1000
      \<and> \<bar>1000 - 1000\<bar> \<le> (300::int) * 1000
      \<and> ?g (kid_or_default ?p3) = None"
    by (simp add: run_defs)
  have V: "parse_signature_header ?h3 = Inr ?p3
      \<and> ?p3 (ustr ''t'') = Some (ustr ''1000'') \<and> ?p3 (ustr ''v1'') = Some (ustr ''ab'')
      \<and> ?p3 (ustr ''kid'') = Some (ustr ''3'') \<and> py_int tagged_env (ustr ''1000'') = Some 1000
      \<and> \<bar>1000 - 1000\<bar> \<le> (300000::int)
      \<and> ?g (ustr ''3'') = None"
    by (simp add: run_defs)
  note T = key_rotation [where env = tagged_env and now_gen = 5 and payload = "ubytes ''{}''"
      and secret_a = "ustr ''a''" and secret_b = "ustr ''b''" and timestamp_ms = "Some 1000"
      and kid_a = "ustr ''1''" and kid_b = "ustr ''2''" and header_a = ?h1 and header_b = ?h2
      and get_secret = ?g and now_ms = 1000 and tolerance_ms = 300000 and ts = 1000
      and tolerance_seconds = 300 and header = ?h3 and parts = ?p3 and pairs = ?p3
      and tsA = "ustr ''1000''" and sgA = "ustr ''ab''" and tA = 1000
      and tsB = "ustr ''1000''" and sgB = "ustr ''ab''" and tB = 1000 and kid = "ustr ''3''"]
  have 1: "verify_signature tagged_env 1000 ?h1 (ubytes ''{}'') ?g 300000 = Inr True
      \<and> verify_signature tagged_env 1000 ?h2 (ubytes ''{}'') ?g 300000 = Inr True"
    using T [THEN conjunct1] B by blast
  have 2: "verify_molam_signature tagged_env 1000 ?h1 (ubytes ''{}'') ?g 300 = Inr True
      \<and> verify_molam_signature tagged_env 1000 ?h2 (ubytes ''{}'') ?g 300 = Inr True"
    using T [THEN conjunct2, THEN conjunct1] A by blast
  have "\<forall>digest. verify_molam_signature (tagged_env\<lparr>hmac_sha256 := digest\<rparr>) 1000 ?h3
      (ubytes ''{}'') ?g 300 = Inl (WebhookVerificationError (MsgUnknownKeyID (kid_or_default ?p3)))"
    using T [THEN conjunct2, THEN conjunct2, THEN conjunct1] U by blast
  from this [rule_format, of "hmac_sha256 tagged_env"]
  have 3: "verify_molam_signature tagged_env 1000 ?h3 (ubytes ''{}'') ?g 300
      = Inl (WebhookVerificationError (MsgUnknownKeyID (ustr ''3'')))"
    by (simp add: kid_or_default_def ustr_def)
  have "\<forall>digest. verify_signature (tagged_env\<lparr>hmac_sha256 := digest\<rparr>) 1000 ?h3
      (ubytes ''{}'') ?g 300000 = Inl (SignatureError (MsgSecretNotFound (ustr ''3'')))"
    using T [THEN conjunct2, THEN conjunct2, THEN conjunct2] V by blast
  from this [rule_format, of "hmac_sha256 tagged_env"]
  have 4: "verify_signature tagged_env 1000 ?h3 (ubytes ''{}'') ?g 300000
      = Inl (SignatureError (MsgSecretNotFound (ustr ''3'')))"
    by simp
  from 1 2 3 4 show ?thesis by simp
qed

end
